theory Spec2Isabelle
  imports Main
begin

section \<open>Python values\<close>

subsection \<open>Strings\<close>

text \<open>
  A Python \<open>str\<close> is a sequence of Unicode code points. The source names a character
  outside Latin-1 (the en dash among the range separators), so a character is its code
  point and a string a list of them. \<open>ustr\<close> turns an ASCII literal into such a list.
\<close>

type_synonym str = "nat list"

definition ustr :: "string \<Rightarrow> str" where
  "ustr s = map of_char s"

text \<open>
  The characters \<open>str.isspace\<close> accepts. \<open>str.strip()\<close> and the class \<open>\s\<close> of
  \<open>re\<close> on a \<open>str\<close> pattern test the same set.
\<close>

definition is_space :: "nat \<Rightarrow> bool" where
  "is_space c \<longleftrightarrow>
     (9 \<le> c \<and> c \<le> 13) \<or> (28 \<le> c \<and> c \<le> 32) \<or> c = 133 \<or> c = 160 \<or> c = 5760 \<or>
     (8192 \<le> c \<and> c \<le> 8202) \<or> c = 8232 \<or> c = 8233 \<or> c = 8239 \<or> c = 8287 \<or>
     c = 12288"

definition lstrip :: "str \<Rightarrow> str" where
  "lstrip s = dropWhile is_space s"

definition rstrip :: "str \<Rightarrow> str" where
  "rstrip s = rev (dropWhile is_space (rev s))"

definition strip :: "str \<Rightarrow> str" where
  "strip s = lstrip (rstrip s)"

definition whitespace_only :: "str \<Rightarrow> bool" where
  "whitespace_only s \<longleftrightarrow> list_all is_space s"

text \<open>\<open>s.startswith(p)\<close>, \<open>sub in s\<close>, \<open>s.lstrip(chars)\<close> and \<open>s.rstrip(chars)\<close>.\<close>

fun startswith :: "str \<Rightarrow> str \<Rightarrow> bool" where
  "startswith s [] = True"
| "startswith [] (p # ps) = False"
| "startswith (c # cs) (p # ps) = (c = p \<and> startswith cs ps)"

fun py_in :: "str \<Rightarrow> str \<Rightarrow> bool" where
  "py_in sub [] = (sub = [])"
| "py_in sub (c # cs) = (startswith (c # cs) sub \<or> py_in sub cs)"

definition lstrip_chars :: "str \<Rightarrow> str \<Rightarrow> str" where
  "lstrip_chars chars s = dropWhile (\<lambda>c. c \<in> set chars) s"

definition rstrip_chars :: "str \<Rightarrow> str \<Rightarrow> str" where
  "rstrip_chars chars s = rev (dropWhile (\<lambda>c. c \<in> set chars) (rev s))"

text \<open>
  \<open>s.split(sep, 1)\<close> for a separator that is not empty: one split, at the first
  occurrence; the list holds \<open>s\<close> alone when the separator does not occur.
\<close>

fun split_at_first :: "str \<Rightarrow> str \<Rightarrow> (str \<times> str) option" where
  "split_at_first sep [] = None"
| "split_at_first sep (c # cs) =
     (if startswith (c # cs) sep then Some ([], drop (length sep) (c # cs))
      else (case split_at_first sep cs of
              None \<Rightarrow> None
            | Some (a, b) \<Rightarrow> Some (c # a, b)))"

definition py_split1 :: "str \<Rightarrow> str \<Rightarrow> str list" where
  "py_split1 sep s = (case split_at_first sep s of None \<Rightarrow> [s] | Some (a, b) \<Rightarrow> [a, b])"

text \<open>
  \<open>s.replace(old, new)\<close>: the occurrences of \<open>old\<close> are found from the left and do
  not overlap. With an empty \<open>old\<close>, \<open>new\<close> goes before every character and at the end.
\<close>

function replace_from :: "str \<Rightarrow> str \<Rightarrow> str \<Rightarrow> str" where
  "replace_from old new [] = []"
| "replace_from old new (c # cs) =
     (if old \<noteq> [] \<and> startswith (c # cs) old
      then new @ replace_from old new (drop (length old) (c # cs))
      else c # replace_from old new cs)"
  by pat_completeness auto
termination
  by (relation "measure (\<lambda>(old, new, s). length s)") auto

definition py_replace :: "str \<Rightarrow> str \<Rightarrow> str \<Rightarrow> str" where
  "py_replace old new s =
     (if old = [] then new @ concat (map (\<lambda>c. c # new) s) else replace_from old new s)"

text \<open>
  \<open>s.find(sub, start, end)\<close>: the bounds are adjusted as a slice's are (a negative bound
  counts from the end), the result is the least index of an occurrence that lies within
  them, or \<open>-1\<close>.
\<close>

definition adjust_index :: "int \<Rightarrow> nat \<Rightarrow> nat" where
  "adjust_index i n = (if i < 0 then nat (max 0 (i + int n)) else nat i)"

definition py_find :: "str \<Rightarrow> str \<Rightarrow> int \<Rightarrow> int \<Rightarrow> int" where
  "py_find s sub start end' =
     (let n = length s;
          e = min (adjust_index end' n) n;
          b = adjust_index start n
      in case List.find (\<lambda>i. startswith (drop i s) sub) [b ..< Suc e - length sub] of
           None \<Rightarrow> - 1
         | Some i \<Rightarrow> int i)"

text \<open>The slice \<open>s[i:j]\<close> for indices that are not negative.\<close>

definition slice :: "str \<Rightarrow> nat \<Rightarrow> nat \<Rightarrow> str" where
  "slice s i j = take (j - i) (drop i s)"

text \<open>
  The comparison \<open>a <= b\<close> of two strings: code point by code point. On ISO 8601 dates
  it is the order of the calendar.
\<close>

fun str_le :: "str \<Rightarrow> str \<Rightarrow> bool" where
  "str_le [] b = True"
| "str_le (x # a) [] = False"
| "str_le (x # a) (y # b) = (x < y \<or> (x = y \<and> str_le a b))"

subsection \<open>Exceptions\<close>

text \<open>
  An exception is its class and its message (\<open>str(e)\<close>). \<open>KeyboardInterrupt\<close> and
  \<open>SystemExit\<close> derive from \<open>BaseException\<close> only, so \<open>except Exception\<close> lets them
  pass.
\<close>

datatype exc_class =
  ValueError | TypeError | AttributeError | OverflowError | RuntimeError
  | KeyboardInterrupt | SystemExit

datatype pyexc = PyExc exc_class str

fun exc_message :: "pyexc \<Rightarrow> str" where
  "exc_message (PyExc c m) = m"

fun is_Exception :: "pyexc \<Rightarrow> bool" where
  "is_Exception (PyExc c m) = (c \<noteq> KeyboardInterrupt \<and> c \<noteq> SystemExit)"

subsection \<open>Loosely typed values\<close>

text \<open>
  What \<open>json.loads\<close> returns and what \<open>to_dict\<close> builds: \<open>None\<close>, booleans,
  integers, floats, strings, lists, dictionaries (the items in insertion order) and
  members of the enumeration \<open>ShowStatus\<close>. A float is kept as its literal.
\<close>

datatype ShowStatus = UPCOMING | RUNNING | CLOSED | CANCELED | POSTPONED

datatype pyval =
  PNone | PBool bool | PInt int | PFloat str | PStr str
  | PList "pyval list" | PDict "(str \<times> pyval) list" | PEnum ShowStatus

subsection \<open>The libraries\<close>

text \<open>
  A calendar date as \<open>datetime.date\<close> holds it: the year is between 1 and 9999.
\<close>

record date =
  year :: nat
  month :: nat
  day :: nat

text \<open>
  What the repository takes from the interpreter and from third-party packages, as
  parameters of the model:
  \<^item> \<open>digit_hi\<close>: the characters beyond ASCII that \<open>\d\<close> accepts (category Nd);
  \<^item> \<open>icase_hi l c\<close>: the character \<open>c\<close> beyond ASCII matches the literal \<open>l\<close> under
    \<open>re.IGNORECASE\<close>;
  \<^item> \<open>lower_hi\<close>: \<open>str.lower()\<close> on a string that is not all ASCII;
  \<^item> \<open>dateutil_parse\<close>: \<open>dateutil.parser.parse(s, fuzzy=True)\<close> followed by \<open>.date()\<close>,
    or the exception it raises;
  \<^item> \<open>fromisoformat_ok\<close>: \<open>datetime.fromisoformat\<close> accepts the string;
  \<^item> \<open>py_repr\<close>: \<open>str(v)\<close> of a value that is not a string;
  \<^item> \<open>float_nonzero\<close>: the float of this literal is not zero;
  \<^item> \<open>utcnow_iso\<close>: \<open>datetime.utcnow().isoformat()\<close>.
\<close>

record pylib =
  digit_hi :: "nat \<Rightarrow> bool"
  icase_hi :: "nat \<Rightarrow> nat \<Rightarrow> bool"
  lower_hi :: "str \<Rightarrow> str"
  dateutil_parse :: "str \<Rightarrow> pyexc + date"
  fromisoformat_ok :: "str \<Rightarrow> bool"
  py_repr :: "pyval \<Rightarrow> str"
  float_nonzero :: "str \<Rightarrow> bool"
  utcnow_iso :: str

definition is_ascii :: "nat \<Rightarrow> bool" where
  "is_ascii c \<longleftrightarrow> c < 128"

definition is_digit :: "pylib \<Rightarrow> nat \<Rightarrow> bool" where
  "is_digit P c = (if is_ascii c then 48 \<le> c \<and> c \<le> 57 else digit_hi P c)"

definition ascii_lower :: "nat \<Rightarrow> nat" where
  "ascii_lower c = (if 65 \<le> c \<and> c \<le> 90 then c + 32 else c)"

definition lower :: "pylib \<Rightarrow> str \<Rightarrow> str" where
  "lower P s = (if list_all is_ascii s then map ascii_lower s else lower_hi P s)"

definition icase_eq :: "pylib \<Rightarrow> nat \<Rightarrow> nat \<Rightarrow> bool" where
  "icase_eq P l c = (if is_ascii c then ascii_lower c = ascii_lower l else icase_hi P l c)"

text \<open>The truth value of a value in a condition.\<close>

fun truthy :: "pylib \<Rightarrow> pyval \<Rightarrow> bool" where
  "truthy P PNone = False"
| "truthy P (PBool b) = b"
| "truthy P (PInt i) = (i \<noteq> 0)"
| "truthy P (PFloat x) = float_nonzero P x"
| "truthy P (PStr s) = (s \<noteq> [])"
| "truthy P (PList xs) = (xs \<noteq> [])"
| "truthy P (PDict kv) = (kv \<noteq> [])"
| "truthy P (PEnum e) = True"

text \<open>\<open>str(v)\<close>, also what an f-string puts for \<open>{v}\<close>.\<close>

definition py_str :: "pylib \<Rightarrow> pyval \<Rightarrow> str" where
  "py_str P v = (case v of PStr s \<Rightarrow> s | _ \<Rightarrow> py_repr P v)"

text \<open>\<open>date.isoformat()\<close>: \<open>YYYY-MM-DD\<close>, each number padded with zeros.\<close>

definition pad2 :: "nat \<Rightarrow> str" where
  "pad2 n = [48 + n div 10 mod 10, 48 + n mod 10]"

definition pad4 :: "nat \<Rightarrow> str" where
  "pad4 n = [48 + n div 1000 mod 10, 48 + n div 100 mod 10, 48 + n div 10 mod 10, 48 + n mod 10]"

definition isoformat :: "date \<Rightarrow> str" where
  "isoformat d = pad4 (year d) @ [45] @ pad2 (month d) @ [45] @ pad2 (day d)"

subsection \<open>Regular expressions\<close>

text \<open>
  The patterns of the source use character classes, literals, sequence, alternation,
  greedy repetition and capturing groups. \<open>matches r (s, g)\<close> lists the ways \<open>r\<close>
  matches a prefix of \<open>s\<close>, each as the rest of the input and the groups captured so far,
  in the order in which the backtracking matcher of \<open>re\<close> tries them: the left
  alternative first, the longer repetition first. The first element is the match \<open>re\<close>
  reports. An iteration of a repetition has to consume input.
\<close>

datatype regex =
  Cls "nat \<Rightarrow> bool" | Eps | Seq regex regex | Alt regex regex | Star regex | Grp nat regex

type_synonym groups = "(nat \<times> str) list"

function matches :: "regex \<Rightarrow> str \<times> groups \<Rightarrow> (str \<times> groups) list" where
  "matches (Cls p) (s, g) = (case s of [] \<Rightarrow> [] | c # cs \<Rightarrow> if p c then [(cs, g)] else [])"
| "matches Eps st = [st]"
| "matches (Seq a b) st = concat (map (matches b) (matches a st))"
| "matches (Alt a b) st = matches a st @ matches b st"
| "matches (Star a) st =
     concat (map (matches (Star a))
               (filter (\<lambda>st'. length (fst st') < length (fst st)) (matches a st))) @ [st]"
| "matches (Grp n a) (s, g) =
     map (\<lambda>(s', g'). (s', (n, take (length s - length s') s) # g')) (matches a (s, g))"
  by pat_completeness auto
termination
  by (relation "measures [\<lambda>(r, st). size r, \<lambda>(r, st). length (fst st)]") auto

definition Lit :: "nat \<Rightarrow> regex" where
  "Lit c = Cls (\<lambda>x. x = c)"

definition Plus :: "regex \<Rightarrow> regex" where
  "Plus r = Seq r (Star r)"

definition Opt :: "regex \<Rightarrow> regex" where
  "Opt r = Alt r Eps"

definition seq :: "regex list \<Rightarrow> regex" where
  "seq rs = foldr Seq rs Eps"

definition lits :: "str \<Rightarrow> regex" where
  "lits s = seq (map Lit s)"

text \<open>A match object: \<open>start()\<close>, \<open>end()\<close> and the groups.\<close>

record rmatch =
  m_start :: nat
  m_end :: nat
  m_groups :: groups

definition group :: "rmatch \<Rightarrow> nat \<Rightarrow> str" where
  "group m n = (case map_of (m_groups m) n of None \<Rightarrow> [] | Some s \<Rightarrow> s)"

text \<open>\<open>re.search\<close>: the first match at the least start; \<open>pos\<close> is where \<open>s\<close> begins.\<close>

fun search_from :: "regex \<Rightarrow> nat \<Rightarrow> str \<Rightarrow> rmatch option" where
  "search_from r pos [] =
     (case matches r ([], []) of
        [] \<Rightarrow> None
      | (rest, g) # _ \<Rightarrow> Some \<lparr> m_start = pos, m_end = pos, m_groups = g \<rparr>)"
| "search_from r pos (c # cs) =
     (case matches r (c # cs, []) of
        [] \<Rightarrow> search_from r (Suc pos) cs
      | (rest, g) # _ \<Rightarrow>
          Some \<lparr> m_start = pos, m_end = pos + (length (c # cs) - length rest), m_groups = g \<rparr>)"

definition re_search :: "regex \<Rightarrow> str \<Rightarrow> rmatch option" where
  "re_search r s = search_from r 0 s"

text \<open>
  \<open>re.sub(r, repl, s)\<close>: the matches are found from the left and do not overlap;
  \<open>repl\<close> builds the replacement from the groups of a match. After an empty match the
  scan moves on by one character.
\<close>

function re_sub :: "regex \<Rightarrow> (groups \<Rightarrow> str) \<Rightarrow> str \<Rightarrow> str" where
  "re_sub r repl [] =
     (case matches r ([], []) of [] \<Rightarrow> [] | (rest, g) # _ \<Rightarrow> repl g)"
| "re_sub r repl (c # cs) =
     (case matches r (c # cs, []) of
        [] \<Rightarrow> c # re_sub r repl cs
      | (rest, g) # _ \<Rightarrow>
          if length rest < length (c # cs) then repl g @ re_sub r repl rest
          else repl g @ c # re_sub r repl cs)"
  by pat_completeness auto
termination
  by (relation "measure (\<lambda>(r, repl, s). length s)") auto

section \<open>utils/parsing.py\<close>

text \<open>
  \<open>parse_date\<close>: an empty string is no date; an exception of the parser that is a
  \<open>ValueError\<close> or a \<open>TypeError\<close> gives \<open>None\<close>, any other one leaves the function.
\<close>

definition parse_date :: "pylib \<Rightarrow> str \<Rightarrow> pyexc + str option" where
  "parse_date P date_string =
     (if date_string = [] then Inr None
      else (case dateutil_parse P date_string of
              Inr parsed_date \<Rightarrow> Inr (Some (isoformat parsed_date))
            | Inl (PyExc c m) \<Rightarrow>
                if c = ValueError \<or> c = TypeError then Inr None else Inl (PyExc c m)))"

text \<open>The separators, in the order of the source; 8211 is the en dash.\<close>

definition separators :: "str list" where
  "separators =
     [ustr '' to '', ustr '' - '', [32, 8211, 32], ustr '' through '', [8211], ustr ''-'']"

text \<open>The two calls of \<open>parse_date\<close> on the stripped parts, and the pair returned.\<close>

definition parse_parts :: "pylib \<Rightarrow> str \<Rightarrow> str \<Rightarrow> pyexc + (str option \<times> str option)" where
  "parse_parts P a b =
     (case parse_date P (strip a) of
        Inl e \<Rightarrow> Inl e
      | Inr start \<Rightarrow>
          (case parse_date P (strip b) of
             Inl e \<Rightarrow> Inl e
           | Inr end' \<Rightarrow> Inr (start, end')))"

text \<open>The loop over the separators: \<open>None\<close> when the loop ends without a return.\<close>

fun try_separators ::
  "pylib \<Rightarrow> str list \<Rightarrow> str \<Rightarrow> (pyexc + (str option \<times> str option)) option" where
  "try_separators P [] date_range_string = None"
| "try_separators P (sep # seps) date_range_string =
     (if py_in sep date_range_string then
        (case py_split1 sep date_range_string of
           [a, b] \<Rightarrow> Some (parse_parts P a b)
         | _ \<Rightarrow> try_separators P seps date_range_string)
      else try_separators P seps date_range_string)"

definition parse_date_range :: "pylib \<Rightarrow> str \<Rightarrow> pyexc + (str option \<times> str option)" where
  "parse_date_range P date_range_string =
     (if date_range_string = [] then Inr (None, None)
      else (case try_separators P separators date_range_string of
              Some r \<Rightarrow> r
            | None \<Rightarrow>
                (case parse_date P date_range_string of
                   Inl e \<Rightarrow> Inl e
                 | Inr single_date \<Rightarrow>
                     if single_date \<noteq> None \<and> single_date \<noteq> Some []
                     then Inr (single_date, single_date)
                     else Inr (None, None))))"

text \<open>
  The three patterns of \<open>extract_price_range\<close>. \<open>number\<close> is
  \<^verbatim>\<open>\d+(?:\.\d{2})?\<close>, \<open>spaces\<close> is \<^verbatim>\<open>\s*\<close>; 36 is the dollar sign, 45 the
  hyphen, 46 the full stop.
\<close>

definition spaces :: regex where
  "spaces = Star (Cls is_space)"

definition number :: "pylib \<Rightarrow> regex" where
  "number P =
     Seq (Plus (Cls (is_digit P)))
         (Opt (seq [Lit 46, Cls (is_digit P), Cls (is_digit P)]))"

text \<open>\<^verbatim>\<open>\$\s*(\d+(?:\.\d{2})?)\s*[-EN DASH]\s*\$?\s*(\d+(?:\.\d{2})?)\<close>\<close>

definition range_pattern :: "pylib \<Rightarrow> regex" where
  "range_pattern P =
     seq [Lit 36, spaces, Grp 1 (number P), spaces, Cls (\<lambda>c. c = 45 \<or> c = 8211), spaces,
          Opt (Lit 36), spaces, Grp 2 (number P)]"

text \<open>\<^verbatim>\<open>(?:starting\s+at|from)\s*\$\s*(\d+(?:\.\d{2})?)\<close> under \<open>re.IGNORECASE\<close>\<close>

definition lits_icase :: "pylib \<Rightarrow> str \<Rightarrow> regex" where
  "lits_icase P s = seq (map (\<lambda>l. Cls (icase_eq P l)) s)"

definition starting_pattern :: "pylib \<Rightarrow> regex" where
  "starting_pattern P =
     seq [Alt (seq [lits_icase P (ustr ''starting''), Plus (Cls is_space),
                    lits_icase P (ustr ''at'')])
              (lits_icase P (ustr ''from'')),
          spaces, Lit 36, spaces, Grp 1 (number P)]"

text \<open>\<^verbatim>\<open>\$\s*(\d+(?:\.\d{2})?)\<close>\<close>

definition single_pattern :: "pylib \<Rightarrow> regex" where
  "single_pattern P = seq [Lit 36, spaces, Grp 1 (number P)]"

definition extract_price_range :: "pylib \<Rightarrow> str \<Rightarrow> str option" where
  "extract_price_range P text =
     (if text = [] then None
      else (case re_search (range_pattern P) text of
              Some range_match \<Rightarrow>
                Some ([36] @ group range_match 1 @ [45, 36] @ group range_match 2)
            | None \<Rightarrow>
                (case re_search (starting_pattern P) text of
                   Some starting_match \<Rightarrow> Some ([36] @ group starting_match 1 @ [43])
                 | None \<Rightarrow>
                     (case re_search (single_pattern P) text of
                        Some single_match \<Rightarrow> Some ([36] @ group single_match 1)
                      | None \<Rightarrow> None))))"

text \<open>
  \<open>clean_text\<close>: \<^verbatim>\<open>re.sub(r'\s+', ' ', text)\<close>, \<open>strip()\<close>, then the six
  replacements in the order of the source. 34 is the double quote, 39 the apostrophe.
\<close>

definition html_entities :: "(str \<times> str) list" where
  "html_entities =
     [(ustr ''&amp;'', ustr ''&''), (ustr ''&nbsp;'', ustr '' ''), (ustr ''&quot;'', [34]),
      (ustr ''&#8217;'', [39]), (ustr ''&#8220;'', [34]), (ustr ''&#8221;'', [34])]"

definition clean_text :: "str \<Rightarrow> str" where
  "clean_text text =
     (if text = [] then []
      else fold (\<lambda>(old, new) t. py_replace old new t) html_entities
             (strip (re_sub (Plus (Cls is_space)) (\<lambda>g. ustr '' '') text)))"

definition normalize_url :: "str \<Rightarrow> str \<Rightarrow> str" where
  "normalize_url url base_url =
     (if url = [] then []
      else if startswith url (ustr ''http://'') \<or> startswith url (ustr ''https://'') then url
      else if startswith url (ustr ''//'') then ustr ''https:'' @ url
      else rstrip_chars (ustr ''/'') base_url @ ustr ''/'' @ lstrip_chars (ustr ''/'') url)"

section \<open>data\_schema.py\<close>

text \<open>The value of a member of \<open>ShowStatus\<close>.\<close>

fun status_value :: "ShowStatus \<Rightarrow> str" where
  "status_value UPCOMING = ustr ''upcoming''"
| "status_value RUNNING = ustr ''running''"
| "status_value CLOSED = ustr ''closed''"
| "status_value CANCELED = ustr ''canceled''"
| "status_value POSTPONED = ustr ''postponed''"

text \<open>The fields \<open>start\<close>, \<open>end\<close> and \<open>schedule\<close> of \<open>ShowDates\<close>.\<close>

record ShowDates =
  d_start :: "str option"
  d_end :: "str option"
  d_schedule :: "str option"

record Show =
  theater_name :: str
  theater_url :: str
  show_title :: str
  playwright :: "str option"
  director :: "str option"
  dates :: "ShowDates option"
  venue :: "str option"
  description :: "str option"
  ticket_url :: "str option"
  price_range :: "str option"
  genres :: "str list"
  cast :: "str list"
  runtime :: "str option"
  image_url :: "str option"
  status :: ShowStatus
  scraped_at :: str
  scraper_version :: str
  scraper_type :: "str option"

text \<open>
  The arguments of the generated constructor. An argument that the caller leaves out is
  \<open>None\<close> and takes the default of its field. \<open>dates\<close> may be a \<open>ShowDates\<close> or a
  dictionary, which \<open>__post_init__\<close> converts.
\<close>

datatype dates_arg = DatesObj ShowDates | DatesDict "(str \<times> str option) list"

record show_args =
  a_theater_name :: str
  a_theater_url :: str
  a_show_title :: str
  a_playwright :: "str option"
  a_director :: "str option"
  a_dates :: "dates_arg option"
  a_venue :: "str option"
  a_description :: "str option"
  a_ticket_url :: "str option"
  a_price_range :: "str option"
  a_genres :: "str list option"
  a_cast :: "str list option"
  a_runtime :: "str option"
  a_image_url :: "str option"
  a_status :: "ShowStatus option"
  a_scraped_at :: "str option"
  a_scraper_version :: "str option"
  a_scraper_type :: "str option"

text \<open>
  \<open>ShowDates(**d)\<close>: a key that is no field of \<open>ShowDates\<close> is an unexpected keyword
  argument; a field without a key keeps its default \<open>None\<close>.
\<close>

definition ShowDates_fields :: "str list" where
  "ShowDates_fields = [ustr ''start'', ustr ''end'', ustr ''schedule'']"

definition kwarg :: "(str \<times> str option) list \<Rightarrow> str \<Rightarrow> str option" where
  "kwarg d k = (case map_of d k of None \<Rightarrow> None | Some v \<Rightarrow> v)"

definition ShowDates_of_dict :: "(str \<times> str option) list \<Rightarrow> pyexc + ShowDates" where
  "ShowDates_of_dict d =
     (if list_all (\<lambda>k. k \<in> set ShowDates_fields) (map fst d)
      then Inr \<lparr> d_start = kwarg d (ustr ''start''),
                 d_end = kwarg d (ustr ''end''),
                 d_schedule = kwarg d (ustr ''schedule'') \<rparr>
      else Inl (PyExc TypeError (ustr ''unexpected keyword argument'')))"

definition convert_dates :: "dates_arg option \<Rightarrow> pyexc + ShowDates option" where
  "convert_dates da =
     (case da of
        None \<Rightarrow> Inr None
      | Some (DatesObj d) \<Rightarrow> Inr (Some d)
      | Some (DatesDict kv) \<Rightarrow>
          (case ShowDates_of_dict kv of Inl e \<Rightarrow> Inl e | Inr d \<Rightarrow> Inr (Some d)))"

text \<open>
  The constructor with \<open>__post_init__\<close>; \<open>now\<close> is what the default factory of
  \<open>scraped_at\<close> returns (\<open>datetime.utcnow().isoformat()\<close>).
\<close>

definition Show_init :: "str \<Rightarrow> show_args \<Rightarrow> pyexc + Show" where
  "Show_init now a =
     (if a_show_title a = [] \<or> strip (a_show_title a) = []
      then Inl (PyExc ValueError (ustr ''show_title cannot be empty''))
      else if a_theater_name a = [] \<or> strip (a_theater_name a) = []
      then Inl (PyExc ValueError (ustr ''theater_name cannot be empty''))
      else
        (case convert_dates (a_dates a) of
           Inl e \<Rightarrow> Inl e
         | Inr d \<Rightarrow>
             Inr \<lparr> theater_name = a_theater_name a,
                   theater_url = a_theater_url a,
                   show_title = a_show_title a,
                   playwright = a_playwright a,
                   director = a_director a,
                   dates = d,
                   venue = a_venue a,
                   description = a_description a,
                   ticket_url = a_ticket_url a,
                   price_range = a_price_range a,
                   genres = (case a_genres a of None \<Rightarrow> [] | Some g \<Rightarrow> g),
                   cast = (case a_cast a of None \<Rightarrow> [] | Some c \<Rightarrow> c),
                   runtime = a_runtime a,
                   image_url = a_image_url a,
                   status = (case a_status a of None \<Rightarrow> UPCOMING | Some s \<Rightarrow> s),
                   scraped_at = (case a_scraped_at a of None \<Rightarrow> now | Some t \<Rightarrow> t),
                   scraper_version =
                     (case a_scraper_version a of None \<Rightarrow> ustr ''1.0'' | Some v \<Rightarrow> v),
                   scraper_type = a_scraper_type a \<rparr>))"

text \<open>Every argument that has a default is left out.\<close>

definition optional_absent :: "show_args \<Rightarrow> bool" where
  "optional_absent a \<longleftrightarrow>
     a_playwright a = None \<and> a_director a = None \<and> a_dates a = None \<and> a_venue a = None \<and>
     a_description a = None \<and> a_ticket_url a = None \<and> a_price_range a = None \<and>
     a_genres a = None \<and> a_cast a = None \<and> a_runtime a = None \<and> a_image_url a = None \<and>
     a_status a = None \<and> a_scraped_at a = None \<and> a_scraper_version a = None \<and>
     a_scraper_type a = None"

text \<open>
  \<open>dataclasses.asdict\<close>: every field in the order of its declaration; a field that
  holds a dataclass becomes the dictionary of all its fields, a member of an enumeration
  stays what it is.
\<close>

definition opt_val :: "str option \<Rightarrow> pyval" where
  "opt_val x = (case x of None \<Rightarrow> PNone | Some s \<Rightarrow> PStr s)"

definition ShowDates_asdict :: "ShowDates \<Rightarrow> (str \<times> pyval) list" where
  "ShowDates_asdict d =
     [(ustr ''start'', opt_val (d_start d)), (ustr ''end'', opt_val (d_end d)),
      (ustr ''schedule'', opt_val (d_schedule d))]"

definition ShowDates_to_dict :: "ShowDates \<Rightarrow> (str \<times> pyval) list" where
  "ShowDates_to_dict d = filter (\<lambda>(k, v). v \<noteq> PNone) (ShowDates_asdict d)"

definition Show_asdict :: "Show \<Rightarrow> (str \<times> pyval) list" where
  "Show_asdict s =
     [(ustr ''theater_name'', PStr (theater_name s)),
      (ustr ''theater_url'', PStr (theater_url s)),
      (ustr ''show_title'', PStr (show_title s)),
      (ustr ''playwright'', opt_val (playwright s)),
      (ustr ''director'', opt_val (director s)),
      (ustr ''dates'',
         (case dates s of None \<Rightarrow> PNone | Some d \<Rightarrow> PDict (ShowDates_asdict d))),
      (ustr ''venue'', opt_val (venue s)),
      (ustr ''description'', opt_val (description s)),
      (ustr ''ticket_url'', opt_val (ticket_url s)),
      (ustr ''price_range'', opt_val (price_range s)),
      (ustr ''genres'', PList (map PStr (genres s))),
      (ustr ''cast'', PList (map PStr (cast s))),
      (ustr ''runtime'', opt_val (runtime s)),
      (ustr ''image_url'', opt_val (image_url s)),
      (ustr ''status'', PEnum (status s)),
      (ustr ''scraped_at'', PStr (scraped_at s)),
      (ustr ''scraper_version'', PStr (scraper_version s)),
      (ustr ''scraper_type'', opt_val (scraper_type s))]"

fun is_dict :: "pyval \<Rightarrow> bool" where
  "is_dict (PDict kv) = True"
| "is_dict v = False"

text \<open>The loop of \<open>Show.to_dict\<close> over the items of \<open>asdict(self)\<close>.\<close>

fun to_dict_items :: "(str \<times> pyval) list \<Rightarrow> (str \<times> pyval) list" where
  "to_dict_items [] = []"
| "to_dict_items ((key, value) # items) =
     (if value = PNone then to_dict_items items
      else if key = ustr ''dates'' \<and> is_dict value then (key, value) # to_dict_items items
      else if key = ustr ''status''
      then (key, (case value of PEnum e \<Rightarrow> PStr (status_value e) | _ \<Rightarrow> value))
             # to_dict_items items
      else if value = PList [] then to_dict_items items
      else (key, value) # to_dict_items items)"

definition Show_to_dict :: "Show \<Rightarrow> (str \<times> pyval) list" where
  "Show_to_dict s = to_dict_items (Show_asdict s)"

record ScraperResult =
  r_theater_name :: str
  r_success :: bool
  r_shows :: "Show list"
  r_error :: "str option"
  r_warnings :: "str list"
  r_scraped_at :: str

section \<open>base/base\_scraper.py\<close>

text \<open>
  Of a scraper, the model keeps the name of the theater and the base URL, which the
  constructor strips of its final slashes.
\<close>

record scraper =
  s_theater_name :: str
  s_base_url :: str

definition BaseScraper_init :: "str \<Rightarrow> str \<Rightarrow> scraper" where
  "BaseScraper_init name base_url =
     \<lparr> s_theater_name = name, s_base_url = rstrip_chars (ustr ''/'') base_url \<rparr>"

definition str_truthy :: "str option \<Rightarrow> bool" where
  "str_truthy x \<longleftrightarrow> x \<noteq> None \<and> x \<noteq> Some []"

definition date_warning :: "pylib \<Rightarrow> str \<Rightarrow> str option \<Rightarrow> str list" where
  "date_warning P label d =
     (if str_truthy d \<and> \<not> fromisoformat_ok P (the d) then [label @ the d] else [])"

definition validate_show :: "pylib \<Rightarrow> Show \<Rightarrow> str list" where
  "validate_show P show =
     (if show_title show = [] \<or> length (strip (show_title show)) < 2
      then [ustr ''Suspiciously short show title: '' @ [39] @ show_title show @ [39]]
      else []) @
     (if str_truthy (ticket_url show) \<and> \<not> startswith (the (ticket_url show)) (ustr ''http'')
      then [ustr ''Invalid ticket URL: '' @ the (ticket_url show)]
      else []) @
     (case dates show of
        None \<Rightarrow> []
      | Some d \<Rightarrow>
          date_warning P (ustr ''Invalid start date format: '') (d_start d) @
          date_warning P (ustr ''Invalid end date format: '') (d_end d))"

text \<open>
  \<open>run\<close>. The abstract \<open>scrape\<close> is the outcome of its call: the result it returns or
  the exception it raises. \<open>except Exception\<close> turns an exception into a failed
  result; what is no \<open>Exception\<close> passes through.
\<close>

definition run :: "pylib \<Rightarrow> scraper \<Rightarrow> pyexc + ScraperResult \<Rightarrow> pyexc + ScraperResult" where
  "run P self scrape =
     (case scrape of
        Inr result \<Rightarrow>
          Inr (result\<lparr> r_warnings :=
                 r_warnings result @ concat (map (validate_show P) (r_shows result)) \<rparr>)
      | Inl e \<Rightarrow>
          if is_Exception e
          then Inr \<lparr> r_theater_name = s_theater_name self, r_success = False, r_shows = [],
                     r_error = Some (exc_message e), r_warnings = [],
                     r_scraped_at = utcnow_iso P \<rparr>
          else Inl e)"

section \<open>The JSON decoder\<close>

text \<open>
  \<open>json.loads\<close> of the standard library on a \<open>str\<close>, \<open>None\<close> standing for
  \<open>JSONDecodeError\<close>: white space is space, tab, line feed and carriage return; a string
  has no raw control character; the escapes are the eight simple ones and \<open>\uXXXX\<close>, two
  of which make one character when they are a surrogate pair; a number is an integer
  unless it has a fraction or an exponent; \<open>NaN\<close>, \<open>Infinity\<close> and \<open>-Infinity\<close> are
  floats; a key that comes again takes the new value; nothing but white space may follow
  the value. The recursion runs on fuel, of which \<open>json_loads\<close> gives enough: two units
  for every character.
\<close>

definition json_ws :: "nat \<Rightarrow> bool" where
  "json_ws c \<longleftrightarrow> c = 32 \<or> c = 9 \<or> c = 10 \<or> c = 13"

definition skip_ws :: "str \<Rightarrow> str" where
  "skip_ws s = dropWhile json_ws s"

definition hex_value :: "nat \<Rightarrow> nat option" where
  "hex_value c =
     (if 48 \<le> c \<and> c \<le> 57 then Some (c - 48)
      else if 97 \<le> c \<and> c \<le> 102 then Some (c - 87)
      else if 65 \<le> c \<and> c \<le> 70 then Some (c - 55)
      else None)"

text \<open>The four hexadecimal digits after \<open>\u\<close>, and the rest.\<close>

definition decode_uXXXX :: "str \<Rightarrow> (nat \<times> str) option" where
  "decode_uXXXX s =
     (case s of
        a # b # c # d # rest \<Rightarrow>
          (case (hex_value a, hex_value b, hex_value c, hex_value d) of
             (Some w, Some x, Some y, Some z) \<Rightarrow> Some (((w * 16 + x) * 16 + y) * 16 + z, rest)
           | _ \<Rightarrow> None)
      | _ \<Rightarrow> None)"

definition simple_escape :: "nat \<Rightarrow> nat option" where
  "simple_escape e =
     (if e = 34 then Some 34 else if e = 92 then Some 92 else if e = 47 then Some 47
      else if e = 98 then Some 8 else if e = 102 then Some 12 else if e = 110 then Some 10
      else if e = 114 then Some 13 else if e = 116 then Some 9 else None)"

text \<open>After \<open>\u\<close>: the character and the rest, a surrogate pair read as one.\<close>

definition unicode_escape :: "str \<Rightarrow> (nat \<times> str) option" where
  "unicode_escape s =
     (case decode_uXXXX s of
        None \<Rightarrow> None
      | Some (uni, rest) \<Rightarrow>
          if 55296 \<le> uni \<and> uni \<le> 56319 \<and> startswith rest [92, 117] then
            (case decode_uXXXX (drop 2 rest) of
               None \<Rightarrow> None
             | Some (uni2, rest2) \<Rightarrow>
                 if 56320 \<le> uni2 \<and> uni2 \<le> 57343
                 then Some (65536 + ((uni - 55296) * 1024 + (uni2 - 56320)), rest2)
                 else Some (uni, rest))
          else Some (uni, rest))"

text \<open>The characters of a string after its opening quote, up to the closing one.\<close>

function json_string :: "str \<Rightarrow> (str \<times> str) option" where
  "json_string [] = None"
| "json_string (c # cs) =
     (if c = 34 then Some ([], cs)
      else if c = 92 then
        (case cs of
           [] \<Rightarrow> None
         | e # es \<Rightarrow>
             if e = 117 then
               (case unicode_escape es of
                  None \<Rightarrow> None
                | Some (u, rest) \<Rightarrow>
                    if length rest < length es
                    then map_option (\<lambda>(x, r). (u # x, r)) (json_string rest)
                    else None)
             else
               (case simple_escape e of
                  None \<Rightarrow> None
                | Some x \<Rightarrow> map_option (\<lambda>(y, r). (x # y, r)) (json_string es)))
      else if c < 32 then None
      else map_option (\<lambda>(y, r). (c # y, r)) (json_string cs))"
  by pat_completeness auto
termination
  by (relation "measure length") auto

definition ascii_digit :: "nat \<Rightarrow> bool" where
  "ascii_digit c \<longleftrightarrow> 48 \<le> c \<and> c \<le> 57"

definition digits_value :: "str \<Rightarrow> int" where
  "digits_value ds = foldl (\<lambda>n c. 10 * n + (int c - 48)) 0 ds"

text \<open>
  A number at the head of \<open>s\<close>: the integer part (\<open>0\<close>, or digits that do not start
  with \<open>0\<close>), then a fraction and an exponent where they are complete.
\<close>

definition json_number :: "str \<Rightarrow> (pyval \<times> str) option" where
  "json_number s =
     (let neg = startswith s [45];
          s1 = (if neg then drop 1 s else s);
          ds = (if startswith s1 [48] then [48] else takeWhile ascii_digit s1);
          s2 = drop (length ds) s1;
          fs = (case s2 of
                  p # t \<Rightarrow> if p = 46 \<and> takeWhile ascii_digit t \<noteq> []
                              then p # takeWhile ascii_digit t
                              else []
                | [] \<Rightarrow> []);
          s3 = drop (length fs) s2;
          es = (case s3 of
                  e # t \<Rightarrow>
                    if e = 101 \<or> e = 69 then
                      (let sg = (case t of
                                   x # _ \<Rightarrow> if x = 43 \<or> x = 45 then [x] else []
                                 | [] \<Rightarrow> []);
                           xs = takeWhile ascii_digit (drop (length sg) t)
                       in if xs = [] then [] else e # sg @ xs)
                    else []
                | [] \<Rightarrow> []);
          s4 = drop (length es) s3
      in if ds = [] then None
         else if fs = [] \<and> es = []
         then Some (PInt (if neg then - digits_value ds else digits_value ds), s4)
         else Some (PFloat ((if neg then [45] else []) @ ds @ fs @ es), s4))"

text \<open>Storing a key of an object as a dictionary does.\<close>

fun dict_set :: "(str \<times> pyval) list \<Rightarrow> str \<Rightarrow> pyval \<Rightarrow> (str \<times> pyval) list" where
  "dict_set [] k v = [(k, v)]"
| "dict_set ((k', v') # kv) k v = (if k' = k then (k, v) # kv else (k', v') # dict_set kv k v)"

fun json_value :: "nat \<Rightarrow> str \<Rightarrow> (pyval \<times> str) option"
  and json_elements :: "nat \<Rightarrow> str \<Rightarrow> pyval list \<Rightarrow> (pyval \<times> str) option"
  and json_members :: "nat \<Rightarrow> str \<Rightarrow> (str \<times> pyval) list \<Rightarrow> (pyval \<times> str) option"
where
  "json_value fuel s =
     (if fuel = 0 then None
      else
        (case s of
           [] \<Rightarrow> None
         | c # cs \<Rightarrow>
             if c = 34 then map_option (\<lambda>(x, r). (PStr x, r)) (json_string cs)
             else if c = 123 then
               (case skip_ws cs of
                  [] \<Rightarrow> None
                | x # r \<Rightarrow>
                    if x = 125 then Some (PDict [], r) else json_members (fuel - 1) (x # r) [])
             else if c = 91 then
               (case skip_ws cs of
                  [] \<Rightarrow> None
                | x # r \<Rightarrow>
                    if x = 93 then Some (PList [], r) else json_elements (fuel - 1) (x # r) [])
             else if startswith s (ustr ''null'') then Some (PNone, drop 4 s)
             else if startswith s (ustr ''true'') then Some (PBool True, drop 4 s)
             else if startswith s (ustr ''false'') then Some (PBool False, drop 5 s)
             else if startswith s (ustr ''NaN'') then Some (PFloat (ustr ''NaN''), drop 3 s)
             else if startswith s (ustr ''Infinity'')
             then Some (PFloat (ustr ''Infinity''), drop 8 s)
             else if startswith s (ustr ''-Infinity'')
             then Some (PFloat (ustr ''-Infinity''), drop 9 s)
             else json_number s))"
| "json_elements fuel s acc =
     (if fuel = 0 then None
      else
        (case json_value (fuel - 1) s of
           None \<Rightarrow> None
         | Some (v, rest) \<Rightarrow>
             (case skip_ws rest of
                [] \<Rightarrow> None
              | x # r \<Rightarrow>
                  if x = 93 then Some (PList (acc @ [v]), r)
                  else if x = 44 then json_elements (fuel - 1) (skip_ws r) (acc @ [v])
                  else None)))"
| "json_members fuel s acc =
     (if fuel = 0 then None
      else
        (case s of
           [] \<Rightarrow> None
         | q # cs \<Rightarrow>
             if q \<noteq> 34 then None
             else
               (case json_string cs of
                  None \<Rightarrow> None
                | Some (key, rest) \<Rightarrow>
                    (case skip_ws rest of
                       [] \<Rightarrow> None
                     | colon # r \<Rightarrow>
                         if colon \<noteq> 58 then None
                         else
                           (case json_value (fuel - 1) (skip_ws r) of
                              None \<Rightarrow> None
                            | Some (v, rest') \<Rightarrow>
                                (case skip_ws rest' of
                                   [] \<Rightarrow> None
                                 | x # r' \<Rightarrow>
                                     if x = 125 then Some (PDict (dict_set acc key v), r')
                                     else if x = 44
                                     then json_members (fuel - 1) (skip_ws r')
                                            (dict_set acc key v)
                                     else None))))))"

declare json_value.simps [simp del] json_elements.simps [simp del] json_members.simps [simp del]

definition json_loads :: "str \<Rightarrow> pyval option" where
  "json_loads s =
     (if startswith s [65279] then None
      else (case json_value (2 * length s + 2) (skip_ws s) of
              None \<Rightarrow> None
            | Some (v, rest) \<Rightarrow> if skip_ws rest = [] then Some v else None))"

section \<open>platforms/wordpress\_spektrix.py\<close>

subsection \<open>The embedded array\<close>

text \<open>
  What one character that is neither escaped nor a backslash does to the state of the
  scan: whether the matching bracket is found, then \<open>depth\<close>, \<open>in_string\<close> and
  \<open>string_char\<close>. 34 and 39 are the two quotes, 91 and 93 the brackets.
\<close>

definition scan_char ::
  "nat \<Rightarrow> int \<Rightarrow> bool \<Rightarrow> nat option \<Rightarrow> bool \<times> int \<times> bool \<times> nat option" where
  "scan_char char depth in_string string_char =
     (if (char = 34 \<or> char = 39) \<and> \<not> in_string then (False, depth, True, Some char)
      else if Some char = string_char \<and> in_string then (False, depth, False, None)
      else if \<not> in_string then
        (if char = 91 then (False, depth + 1, in_string, string_char)
         else if char = 93 then (depth - 1 = 0, depth - 1, in_string, string_char)
         else (False, depth, in_string, string_char))
      else (False, depth, in_string, string_char))"

text \<open>
  The \<open>while\<close> loop of \<open>extract_js_array\<close>. It returns the slice it found, or leaves
  the loop at index \<open>i\<close> without one: by the \<open>break\<close> of the safety check or because
  \<open>i\<close> reached the end of the text. The two \<open>continue\<close> of the escape handling go
  back to the head of the loop, past the safety check.
\<close>

datatype scan_result = Found str | GaveUp nat

function scan :: "str \<Rightarrow> nat \<Rightarrow> nat \<Rightarrow> int \<Rightarrow> bool \<Rightarrow> nat option \<Rightarrow> bool \<Rightarrow> scan_result" where
  "scan text bracket_pos i depth in_string string_char escape_next =
     (if i < length text then
        (if escape_next then scan text bracket_pos (i + 1) depth in_string string_char False
         else if text ! i = 92 then scan text bracket_pos (i + 1) depth in_string string_char True
         else
           (case scan_char (text ! i) depth in_string string_char of
              (found, depth', in_string', string_char') \<Rightarrow>
                if found then Found (slice text bracket_pos (i + 1))
                else if i + 1 - bracket_pos > 500000 then GaveUp (i + 1)
                else scan text bracket_pos (i + 1) depth' in_string' string_char' False))
      else GaveUp i)"
  by pat_completeness auto
termination
  by (relation "measure (\<lambda>(text, bracket_pos, i, rest). length text - i)") auto

declare scan.simps [simp del]

definition extract_js_array :: "str \<Rightarrow> regex \<Rightarrow> str option" where
  "extract_js_array text start_pattern =
     (case re_search start_pattern text of
        None \<Rightarrow> None
      | Some match \<Rightarrow>
          (let start_pos = int (m_end match);
               bracket_pos = py_find text (ustr ''['') (start_pos - 10) (start_pos + 10)
           in if bracket_pos = - 1 then None
              else (case scan text (nat bracket_pos) (nat bracket_pos) 0 False None False of
                      Found s \<Rightarrow> Some s
                    | GaveUp i \<Rightarrow> None)))"

text \<open>
  The pattern \<^verbatim>\<open>re.escape(var_keyword) + r'\s*=\s*'\<close> (61 is the equals sign) and
  the three keywords.
\<close>

definition anchor :: "str \<Rightarrow> regex" where
  "anchor var_keyword = seq [lits var_keyword, spaces, Lit 61, spaces]"

definition var_keywords :: "str list" where
  "var_keywords = [ustr ''var events'', ustr ''const events'', ustr ''let events'']"

text \<open>
  The two repairs before the parse: \<^verbatim>\<open>\'\<close> becomes \<^verbatim>\<open>'\<close>, and
  \<^verbatim>\<open>re.sub(r',(\s*[}\]])', r'\1', ...)\<close> takes the comma away that stands before a
  closing brace or bracket (44 is the comma, 125 the closing brace).
\<close>

definition group_text :: "groups \<Rightarrow> nat \<Rightarrow> str" where
  "group_text g n = (case map_of g n of None \<Rightarrow> [] | Some s \<Rightarrow> s)"

definition trailing_comma :: regex where
  "trailing_comma = Seq (Lit 44) (Grp 1 (Seq spaces (Cls (\<lambda>c. c = 125 \<or> c = 93))))"

definition clean_js :: "str \<Rightarrow> str" where
  "clean_js events_json =
     re_sub trailing_comma (\<lambda>g. group_text g 1) (py_replace [92, 39] [39] events_json)"

subsection \<open>One event\<close>

text \<open>
  \<open>event_data.get(k, default)\<close>, the nested \<open>event_data.get(k, event_data.get(k', ''))\<close>
  and \<open>k in event_data\<close>.
\<close>

definition dict_get :: "(str \<times> pyval) list \<Rightarrow> str \<Rightarrow> pyval \<Rightarrow> pyval" where
  "dict_get d k dflt = (case map_of d k of Some v \<Rightarrow> v | None \<Rightarrow> dflt)"

definition get_either :: "(str \<times> pyval) list \<Rightarrow> str \<Rightarrow> str \<Rightarrow> pyval" where
  "get_either d k k' = dict_get d k (dict_get d k' (PStr []))"

definition has_key :: "(str \<times> pyval) list \<Rightarrow> str \<Rightarrow> bool" where
  "has_key d k \<longleftrightarrow> map_of d k \<noteq> None"

text \<open>Sequencing of steps that may raise, and \<open>x or None\<close> for a string.\<close>

definition bind :: "pyexc + 'a \<Rightarrow> ('a \<Rightarrow> pyexc + 'b) \<Rightarrow> pyexc + 'b" where
  "bind m f = (case m of Inl e \<Rightarrow> Inl e | Inr x \<Rightarrow> f x)"

definition or_none :: "str \<Rightarrow> str option" where
  "or_none s = (if s = [] then None else Some s)"

text \<open>
  The functions of \<open>utils\<close> on a value of any type. \<open>parse_date\<close> returns \<open>None\<close> for a
  value that is false, and for any other value that is no string, on which the parser
  raises \<open>TypeError\<close>. \<open>clean_text\<close> and \<open>normalize_url\<close> are called on true values only,
  and raise on one that is no string (\<open>re.sub\<close> a \<open>TypeError\<close>, \<open>startswith\<close> an
  \<open>AttributeError\<close>).
\<close>

definition parse_date_value :: "pylib \<Rightarrow> pyval \<Rightarrow> pyexc + str option" where
  "parse_date_value P v = (case v of PStr s \<Rightarrow> parse_date P s | _ \<Rightarrow> Inr None)"

definition clean_text_value :: "pyval \<Rightarrow> pyexc + str" where
  "clean_text_value v =
     (case v of
        PStr s \<Rightarrow> Inr (clean_text s)
      | _ \<Rightarrow> Inl (PyExc TypeError (ustr ''expected string or bytes-like object'')))"

definition normalize_url_value :: "pyval \<Rightarrow> str \<Rightarrow> pyexc + str" where
  "normalize_url_value v base_url =
     (case v of
        PStr s \<Rightarrow> Inr (normalize_url s base_url)
      | _ \<Rightarrow> Inl (PyExc AttributeError (ustr ''object has no attribute startswith'')))"

text \<open>
  \<open>if x: x = clean_text(x)\<close> and, at the construction, \<open>x or None\<close>: what the Show
  gets for a field read that way.
\<close>

definition cleaned_field :: "pylib \<Rightarrow> pyval \<Rightarrow> pyexc + str option" where
  "cleaned_field P v =
     (if truthy P v then bind (clean_text_value v) (\<lambda>s. Inr (or_none s)) else Inr None)"

definition url_field :: "pylib \<Rightarrow> pyval \<Rightarrow> str \<Rightarrow> pyexc + str option" where
  "url_field P v base_url =
     (if truthy P v then bind (normalize_url_value v base_url) (\<lambda>s. Inr (or_none s))
      else Inr None)"

text \<open>The first of three keys that the record has, parsed as a date.\<close>

definition date_field :: "pylib \<Rightarrow> (str \<times> pyval) list \<Rightarrow> str \<Rightarrow> str \<Rightarrow> str \<Rightarrow> pyexc + str option" where
  "date_field P d k1 k2 k3 =
     (if has_key d k1 then parse_date_value P (dict_get d k1 PNone)
      else if has_key d k2 then parse_date_value P (dict_get d k2 PNone)
      else if has_key d k3 then parse_date_value P (dict_get d k3 PNone)
      else Inr None)"

text \<open>The description: cleaned, and cut to 497 characters and an ellipsis beyond 500.\<close>

definition description_field :: "pylib \<Rightarrow> pyval \<Rightarrow> pyexc + str option" where
  "description_field P v =
     (if truthy P v then
        bind (clean_text_value v)
          (\<lambda>s. Inr (or_none (if length s > 500 then take 497 s @ ustr ''...'' else s)))
      else Inr None)"

text \<open>
  The ticket URL: the normalized \<open>url\<close> or \<open>link\<close>; without one, the URL built from
  the instance id.
\<close>

definition ticket_url_field :: "pylib \<Rightarrow> scraper \<Rightarrow> (str \<times> pyval) list \<Rightarrow> pyexc + str option" where
  "ticket_url_field P self d =
     (let ticket_url = get_either d (ustr ''url'') (ustr ''link'');
          instance_id = get_either d (ustr ''instance_id'') (ustr ''instanceId'')
      in if truthy P ticket_url
         then bind (normalize_url_value ticket_url (s_base_url self)) (\<lambda>s. Inr (or_none s))
         else if truthy P instance_id
         then Inr (or_none (s_base_url self @ ustr ''/performances/?instanceId=''
                              @ py_str P instance_id))
         else Inr None)"

definition price_field :: "pylib \<Rightarrow> (str \<times> pyval) list \<Rightarrow> str option" where
  "price_field P d =
     (if has_key d (ustr ''price'')
      then extract_price_range P (py_str P (dict_get d (ustr ''price'') PNone))
      else if has_key d (ustr ''pricing'')
      then extract_price_range P (py_str P (dict_get d (ustr ''pricing'') PNone))
      else None)"

text \<open>\<open>v.lower()\<close>: a value that is no string has no such method.\<close>

definition lower_value :: "pylib \<Rightarrow> pyval \<Rightarrow> pyexc + str" where
  "lower_value P v =
     (case v of
        PStr s \<Rightarrow> Inr (lower P s)
      | _ \<Rightarrow> Inl (PyExc AttributeError (ustr ''object has no attribute lower'')))"

text \<open>
  The status: first the rules on the text of \<open>status\<close>, then the rule on
  \<open>className\<close>, which assigns whatever the first rules found.
\<close>

definition status_from_text :: "pylib \<Rightarrow> (str \<times> pyval) list \<Rightarrow> pyexc + ShowStatus" where
  "status_from_text P d =
     (if has_key d (ustr ''status'') then
        bind (lower_value P (dict_get d (ustr ''status'') PNone))
          (\<lambda>status_str.
             if py_in (ustr ''cancel'') status_str then Inr CANCELED
             else if py_in (ustr ''closed'') status_str \<or> py_in (ustr ''past'') status_str
             then Inr CLOSED
             else Inr UPCOMING)
      else Inr UPCOMING)"

definition determine_status :: "pylib \<Rightarrow> (str \<times> pyval) list \<Rightarrow> pyexc + ShowStatus" where
  "determine_status P d =
     bind (status_from_text P d)
       (\<lambda>status.
          if has_key d (ustr ''className'') then
            bind (lower_value P (dict_get d (ustr ''className'') PNone))
              (\<lambda>class_name.
                 if py_in (ustr ''main-stage'') class_name \<or> py_in (ustr ''perfs'') class_name
                 then Inr RUNNING
                 else Inr status)
          else Inr status)"

text \<open>
  The body of the \<open>try\<close> of \<open>_parse_spektrix_event\<close> for a record that is a
  dictionary: \<open>Inr None\<close> is its \<open>return None\<close>.
\<close>

definition event_fields :: "pylib \<Rightarrow> scraper \<Rightarrow> (str \<times> pyval) list \<Rightarrow> pyexc + Show option" where
  "event_fields P self d =
     (let title = get_either d (ustr ''title'') (ustr ''name'')
      in if \<not> truthy P title then Inr None
         else
           bind (clean_text_value title) (\<lambda>title.
           bind (date_field P d (ustr ''start'') (ustr ''start_date'') (ustr ''firstPerformance''))
             (\<lambda>start_date.
           bind (date_field P d (ustr ''end'') (ustr ''end_date'') (ustr ''lastPerformance''))
             (\<lambda>end_date.
           bind (description_field P (get_either d (ustr ''description'') (ustr ''synopsis'')))
             (\<lambda>description.
           bind (ticket_url_field P self d) (\<lambda>ticket_url.
           bind (cleaned_field P (get_either d (ustr ''venue'') (ustr ''location''))) (\<lambda>venue.
           bind (url_field P (get_either d (ustr ''image'') (ustr ''imageUrl'')) (s_base_url self))
             (\<lambda>image_url.
           bind (cleaned_field P (get_either d (ustr ''playwright'') (ustr ''writer'')))
             (\<lambda>playwright.
           bind (cleaned_field P (dict_get d (ustr ''director'') (PStr []))) (\<lambda>director.
           bind (determine_status P d) (\<lambda>status.
           bind (Show_init (utcnow_iso P)
                  \<lparr> a_theater_name = s_theater_name self,
                    a_theater_url = s_base_url self,
                    a_show_title = title,
                    a_playwright = playwright,
                    a_director = director,
                    a_dates =
                      (if str_truthy start_date \<or> str_truthy end_date
                       then Some (DatesObj \<lparr> d_start = start_date, d_end = end_date,
                                              d_schedule = None \<rparr>)
                       else None),
                    a_venue = venue,
                    a_description = description,
                    a_ticket_url = ticket_url,
                    a_price_range = price_field P d,
                    a_genres = None,
                    a_cast = None,
                    a_runtime = None,
                    a_image_url = image_url,
                    a_status = Some status,
                    a_scraped_at = None,
                    a_scraper_version = None,
                    a_scraper_type = Some (ustr ''wordpress_spektrix'') \<rparr>)
             (\<lambda>show. Inr (Some show)))))))))))))"

text \<open>
  \<open>_parse_spektrix_event\<close>: \<open>except Exception\<close> makes \<open>None\<close> of whatever the body
  raises, also of the \<open>AttributeError\<close> of \<open>get\<close> on a record that is no dictionary.
\<close>

definition parse_spektrix_event :: "pylib \<Rightarrow> scraper \<Rightarrow> pyval \<Rightarrow> pyexc + Show option" where
  "parse_spektrix_event P self event_data =
     (case event_data of
        PDict d \<Rightarrow>
          (case event_fields P self d of
             Inl e \<Rightarrow> if is_Exception e then Inr None else Inl e
           | Inr r \<Rightarrow> Inr r)
      | _ \<Rightarrow> Inr None)"

subsection \<open>The events of a page\<close>

text \<open>
  What \<open>for event_data in events_data\<close> runs over; \<open>None\<close> for a value that has no
  length or cannot be iterated, where the code raises \<open>TypeError\<close>.
\<close>

definition py_iter :: "pyval \<Rightarrow> pyval list option" where
  "py_iter v =
     (case v of
        PList xs \<Rightarrow> Some xs
      | PDict kv \<Rightarrow> Some (map (\<lambda>(k, x). PStr k) kv)
      | PStr s \<Rightarrow> Some (map (\<lambda>c. PStr [c]) s)
      | _ \<Rightarrow> None)"

fun parse_events :: "pylib \<Rightarrow> scraper \<Rightarrow> pyval list \<Rightarrow> Show list \<Rightarrow> pyexc + Show list" where
  "parse_events P self [] shows = Inr shows"
| "parse_events P self (event_data # rest) shows =
     (case parse_spektrix_event P self event_data of
        Inl e \<Rightarrow> Inl e
      | Inr None \<Rightarrow> parse_events P self rest shows
      | Inr (Some show) \<Rightarrow> parse_events P self rest (shows @ [show]))"

text \<open>
  The loop of \<open>_scrape_from_page\<close> over the three keywords, on the text of the page: the
  shows of the first keyword that yields any.
\<close>

fun events_of_page :: "pylib \<Rightarrow> scraper \<Rightarrow> str \<Rightarrow> str list \<Rightarrow> pyexc + Show list" where
  "events_of_page P self html_text [] = Inr []"
| "events_of_page P self html_text (var_keyword # keywords) =
     (case extract_js_array html_text (anchor var_keyword) of
        None \<Rightarrow> events_of_page P self html_text keywords
      | Some events_json \<Rightarrow>
          (case json_loads (clean_js events_json) of
             None \<Rightarrow> events_of_page P self html_text keywords
           | Some events_data \<Rightarrow>
               (case py_iter events_data of
                  None \<Rightarrow> events_of_page P self html_text keywords
                | Some events \<Rightarrow>
                    (case parse_events P self events [] of
                       Inl e \<Rightarrow> Inl e
                     | Inr shows \<Rightarrow>
                         if shows \<noteq> [] then Inr shows
                         else events_of_page P self html_text keywords))))"

section \<open>Normal forms of text\<close>

text \<open>
  What \<^verbatim>\<open>re.sub(r'\s+', ' ', text)\<close> computes, written as a recursion on the text
  (\<open>collapse_ws\<close>); the texts it leaves unchanged (\<open>single_spaced\<close>: the only white
  space is a single space between two other characters, or at an end); and the texts in
  which none of the six entities of \<open>clean_text\<close> occurs.
\<close>

function collapse_ws :: "str \<Rightarrow> str" where
  "collapse_ws [] = []"
| "collapse_ws (c # cs) =
     (if is_space c then 32 # collapse_ws (dropWhile is_space cs) else c # collapse_ws cs)"
  by pat_completeness auto
termination
  by (relation "measure length") (auto simp: length_dropWhile_le less_Suc_eq_le)

fun single_spaced :: "str \<Rightarrow> bool" where
  "single_spaced [] = True"
| "single_spaced (c # cs) =
     ((\<not> is_space c \<or> (c = 32 \<and> (cs = [] \<or> \<not> is_space (hd cs)))) \<and> single_spaced cs)"

text \<open>None of the entities that \<open>clean_text\<close> replaces occurs in the text.\<close>

definition entity_free :: "str \<Rightarrow> bool" where
  "entity_free t \<longleftrightarrow> list_all (\<lambda>(old, new). \<not> py_in old t) html_entities"

section \<open>Concrete inputs\<close>

text \<open>
  A library for the examples. Every text of the examples is ASCII, so the entries for the
  characters beyond ASCII are never consulted, and no example reaches \<open>fromisoformat_ok\<close>,
  \<open>py_repr\<close> or \<open>float_nonzero\<close>. Of the date parser it holds the answers on the texts
  the examples use: a text with month, day and year is that date, and the text \<open>Feb 21\<close>,
  which names no year, takes the year of the day the parser runs on (the library fills
  what a text leaves out from the current date).
\<close>

definition dateutil_examples :: "nat \<Rightarrow> (str \<times> date) list" where
  "dateutil_examples this_year =
     [(ustr ''Nov 14, 2025'', \<lparr> year = 2025, month = 11, day = 14 \<rparr>),
      (ustr ''Mar 29, 2025'', \<lparr> year = 2025, month = 3, day = 29 \<rparr>),
      (ustr ''Feb 21, 2025'', \<lparr> year = 2025, month = 2, day = 21 \<rparr>),
      (ustr ''Feb 21'', \<lparr> year = this_year, month = 2, day = 21 \<rparr>)]"

definition example_lib :: "nat \<Rightarrow> pylib" where
  "example_lib this_year =
     \<lparr> digit_hi = (\<lambda>c. False), icase_hi = (\<lambda>l c. False), lower_hi = (\<lambda>s. s),
       dateutil_parse =
         (\<lambda>s. case map_of (dateutil_examples this_year) s of
                 Some d \<Rightarrow> Inr d
               | None \<Rightarrow> Inl (PyExc ValueError (ustr ''Unknown string format''))),
       fromisoformat_ok = (\<lambda>s. length s = 10),
       py_repr = (\<lambda>v. ustr ''?''),
       float_nonzero = (\<lambda>x. True),
       utcnow_iso = ustr ''2025-11-14T12:00:00'' \<rparr>"

definition hamlet_args :: show_args where
  "hamlet_args =
     \<lparr> a_theater_name = ustr ''NYTW'', a_theater_url = ustr ''https://www.nytw.org'',
       a_show_title = ustr ''Hamlet'', a_playwright = None, a_director = None,
       a_dates = None, a_venue = None, a_description = None, a_ticket_url = None,
       a_price_range = None, a_genres = None, a_cast = None, a_runtime = None,
       a_image_url = None, a_status = None, a_scraped_at = None,
       a_scraper_version = None, a_scraper_type = None \<rparr>"

definition nytw :: scraper where
  "nytw = BaseScraper_init (ustr ''New York Theatre Workshop'') (ustr ''https://www.nytw.org/'')"

definition feb_show :: Show where
  "feb_show =
     \<lparr> theater_name = ustr ''NYTW'', theater_url = ustr ''https://www.nytw.org'',
       show_title = ustr ''Hamlet'', playwright = None, director = None,
       dates = Some \<lparr> d_start = Some (ustr ''2025-02-21''), d_end = None, d_schedule = None \<rparr>,
       venue = None, description = None, ticket_url = None, price_range = None,
       genres = [], cast = [], runtime = None, image_url = None, status = UPCOMING,
       scraped_at = ustr ''2025-11-14T12:00:00'', scraper_version = ustr ''1.0'',
       scraper_type = Some (ustr ''wordpress_spektrix'') \<rparr>"

definition events_page :: str where
  "events_page = ustr ''var events = [{\"a\": \"x]y\", \"b\": 1},];''"

definition cancelled_event :: "(str \<times> pyval) list" where
  "cancelled_event =
     [(ustr ''title'', PStr (ustr ''  Hamlet &amp; Co '')),
      (ustr ''status'', PStr (ustr ''Cancelled'')),
      (ustr ''className'', PStr (ustr ''event main-stage'')),
      (ustr ''start'', PStr (ustr ''Nov 14, 2025'')),
      (ustr ''link'', PStr (ustr ''/shows/hamlet'')),
      (ustr ''price'', PStr (ustr ''from $25''))]"

definition cancelled_show :: Show where
  "cancelled_show =
     \<lparr> theater_name = ustr ''New York Theatre Workshop'',
       theater_url = ustr ''https://www.nytw.org'',
       show_title = ustr ''Hamlet & Co'', playwright = None, director = None,
       dates = Some \<lparr> d_start = Some (ustr ''2025-11-14''), d_end = None, d_schedule = None \<rparr>,
       venue = None, description = None,
       ticket_url = Some (ustr ''https://www.nytw.org/shows/hamlet''),
       price_range = Some (ustr ''$25+''),
       genres = [], cast = [], runtime = None, image_url = None, status = RUNNING,
       scraped_at = ustr ''2025-11-14T12:00:00'', scraper_version = ustr ''1.0'',
       scraper_type = Some (ustr ''wordpress_spektrix'') \<rparr>"

text \<open>
  Two pages with an array that never closes: after the opening bracket, \<open>n\<close>
  backslashes, and \<open>n\<close> letters \<open>x\<close>.
\<close>

definition escaped_page :: "nat \<Rightarrow> str" where
  "escaped_page n = ustr ''var events = ['' @ replicate n 92"

definition plain_page :: "nat \<Rightarrow> str" where
  "plain_page n = ustr ''var events = ['' @ replicate n 120"

section \<open>Properties\<close>

subsection \<open>Stripping\<close>

lemma rstrip_Nil_iff: "rstrip s = [] \<longleftrightarrow> list_all is_space s"
  by (simp add: rstrip_def dropWhile_eq_Nil_conv list_all_iff)

lemma rstrip_last: "rstrip s \<noteq> [] \<Longrightarrow> \<not> is_space (last (rstrip s))"
proof -
  assume ne: "rstrip s \<noteq> []"
  then have d: "dropWhile is_space (rev s) \<noteq> []"
    by (simp add: rstrip_def)
  then have "\<not> is_space (hd (dropWhile is_space (rev s)))"
    by (rule hd_dropWhile)
  with d show ?thesis
    by (simp add: rstrip_def last_rev)
qed

lemma strip_Nil_iff: "strip s = [] \<longleftrightarrow> whitespace_only s"
proof
  assume e: "strip s = []"
  show "whitespace_only s"
  proof (rule ccontr)
    assume "\<not> whitespace_only s"
    then have ne: "rstrip s \<noteq> []"
      by (simp add: rstrip_Nil_iff whitespace_only_def)
    from e have "\<forall>c \<in> set (rstrip s). is_space c"
      by (simp add: strip_def lstrip_def dropWhile_eq_Nil_conv)
    with ne have "is_space (last (rstrip s))"
      by simp
    with rstrip_last [OF ne] show False
      by simp
  qed
next
  assume "whitespace_only s"
  then have "rstrip s = []"
    by (simp add: rstrip_Nil_iff whitespace_only_def)
  then show "strip s = []"
    by (simp add: strip_def lstrip_def)
qed

subsection \<open>Show construction\<close>

text \<open>
  C3. Constructing a Show whose show\_title or theater\_name is empty or consists of white
  space only fails with a ValueError, whatever the other arguments are. Constructing one
  whose title and theater name both hold a character that is not white space, with every
  optional argument left out, succeeds, and the status of the new Show is upcoming.
\<close>

theorem Show_construction:
  "(whitespace_only (a_show_title a) \<or> whitespace_only (a_theater_name a) \<longrightarrow>
      (\<exists>msg. Show_init now a = Inl (PyExc ValueError msg))) \<and>
   (\<not> whitespace_only (a_show_title a) \<and> \<not> whitespace_only (a_theater_name a) \<and>
    optional_absent a \<longrightarrow>
      (\<exists>s. Show_init now a = Inr s \<and> status s = UPCOMING \<and>
           show_title s = a_show_title a \<and> theater_name s = a_theater_name a))"
proof (intro conjI impI)
  assume "whitespace_only (a_show_title a) \<or> whitespace_only (a_theater_name a)"
  then have "strip (a_show_title a) = [] \<or> strip (a_theater_name a) = []"
    by (simp add: strip_Nil_iff)
  then show "\<exists>msg. Show_init now a = Inl (PyExc ValueError msg)"
    by (auto simp: Show_init_def)
next
  assume h: "\<not> whitespace_only (a_show_title a) \<and> \<not> whitespace_only (a_theater_name a) \<and>
    optional_absent a"
  then have t: "strip (a_show_title a) \<noteq> []" and n: "strip (a_theater_name a) \<noteq> []"
    by (simp_all add: strip_Nil_iff)
  from t have t': "a_show_title a \<noteq> []"
    by (auto simp: strip_def lstrip_def rstrip_def)
  from n have n': "a_theater_name a \<noteq> []"
    by (auto simp: strip_def lstrip_def rstrip_def)
  from h have "a_dates a = None" and "a_status a = None"
    by (simp_all add: optional_absent_def)
  with t n t' n'
  show "\<exists>s. Show_init now a = Inr s \<and> status s = UPCOMING \<and>
           show_title s = a_show_title a \<and> theater_name s = a_theater_name a"
    by (simp add: Show_init_def convert_dates_def)
qed

theorem Show_construction_witness:
  "whitespace_only (a_show_title (hamlet_args\<lparr>a_show_title := ustr ''  ''\<rparr>)) \<and>
   (\<exists>msg. Show_init [] (hamlet_args\<lparr>a_show_title := ustr ''  ''\<rparr>) = Inl (PyExc ValueError msg)) \<and>
   \<not> whitespace_only (a_show_title hamlet_args) \<and>
   \<not> whitespace_only (a_theater_name hamlet_args) \<and> optional_absent hamlet_args \<and>
   (\<exists>s. Show_init [] hamlet_args = Inr s \<and> status s = UPCOMING)"
proof -
  have w: "whitespace_only (a_show_title (hamlet_args\<lparr>a_show_title := ustr ''  ''\<rparr>))"
    by (simp add: whitespace_only_def ustr_def is_space_def)
  have h: "\<not> whitespace_only (a_show_title hamlet_args) \<and>
     \<not> whitespace_only (a_theater_name hamlet_args) \<and> optional_absent hamlet_args"
    by (simp add: hamlet_args_def whitespace_only_def ustr_def is_space_def
        optional_absent_def)
  from w h
    Show_construction [of "hamlet_args\<lparr>a_show_title := ustr ''  ''\<rparr>" "[]"]
    Show_construction [of hamlet_args "[]"]
  show ?thesis by blast
qed

subsection \<open>Serialization\<close>

lemma status_token_not_None:
  "value \<noteq> PNone \<Longrightarrow>
   (case value of PEnum e \<Rightarrow> PStr (status_value e) | _ \<Rightarrow> value) \<noteq> PNone"
  by (cases "value") simp_all

lemma to_dict_items_no_None: "(k, v) \<in> set (to_dict_items items) \<Longrightarrow> v \<noteq> PNone"
proof (induction items rule: to_dict_items.induct)
  case 1
  then show ?case by simp
next
  case (2 key "value" items)
  show ?case
  proof (cases "(k, v) \<in> set (to_dict_items items)")
    case True
    with "2.IH" show ?thesis
      by (auto split: if_splits)
  next
    case False
    with "2.prems" have ne: "value \<noteq> PNone"
      by (auto split: if_splits)
    from False "2.prems" have
      "v = value \<or> v = (case value of PEnum e \<Rightarrow> PStr (status_value e) | _ \<Rightarrow> value)"
      by (auto split: if_splits)
    with ne status_token_not_None [OF ne] show ?thesis
      by auto
  qed
qed

text \<open>
  C9. \<open>Show.to_dict\<close> leaves out the fields that are \<open>None\<close> at the top level, but it
  stores the value that \<open>asdict\<close> built for \<open>dates\<close> as it is: the dictionary of all
  three fields of \<open>ShowDates\<close>, with \<open>None\<close> for the absent ones. For a Show with a start
  date only, the entry \<open>dates\<close> holds \<open>end\<close> and \<open>schedule\<close> with the value \<open>None\<close>,
  where \<open>ShowDates.to_dict\<close>, which \<open>Show.to_dict\<close> never calls, leaves them out.
\<close>

theorem to_dict_keeps_absent_dates:
  "map_of (Show_to_dict feb_show) (ustr ''dates'') =
     Some (PDict [(ustr ''start'', PStr (ustr ''2025-02-21'')), (ustr ''end'', PNone),
                  (ustr ''schedule'', PNone)]) \<and>
   ShowDates_to_dict (the (dates feb_show)) = [(ustr ''start'', PStr (ustr ''2025-02-21''))] \<and>
   map_of (Show_to_dict feb_show) (ustr ''status'') = Some (PStr (ustr ''upcoming'')) \<and>
   map_of (Show_to_dict feb_show) (ustr ''venue'') = None \<and>
   map_of (Show_to_dict feb_show) (ustr ''genres'') = None"
  by (simp add: Show_to_dict_def Show_asdict_def feb_show_def ShowDates_asdict_def
      ShowDates_to_dict_def opt_val_def ustr_def)

subsection \<open>The scrape session\<close>

text \<open>
  C4. When the scrape raises an exception (an instance of \<open>Exception\<close>), \<open>run\<close> does
  not raise: it returns a result with success false and the message of the exception as
  its error. Whenever the scrape returns or raises an \<open>Exception\<close>, \<open>run\<close> returns a
  result.
\<close>

theorem run_catches_exception:
  "(is_Exception e \<longrightarrow>
      run P self (Inl e) =
        Inr \<lparr> r_theater_name = s_theater_name self, r_success = False, r_shows = [],
              r_error = Some (exc_message e), r_warnings = [],
              r_scraped_at = utcnow_iso P \<rparr>) \<and>
   ((\<forall>e'. scrape = Inl e' \<longrightarrow> is_Exception e') \<longrightarrow> (\<exists>r. run P self scrape = Inr r))"
  by (cases scrape) (simp_all add: run_def)

theorem run_catches_exception_witness:
  "is_Exception (PyExc RuntimeError (ustr ''boom'')) \<and>
   run (example_lib 2025) nytw (Inl (PyExc RuntimeError (ustr ''boom''))) =
     Inr \<lparr> r_theater_name = ustr ''New York Theatre Workshop'', r_success = False,
           r_shows = [], r_error = Some (ustr ''boom''), r_warnings = [],
           r_scraped_at = ustr ''2025-11-14T12:00:00'' \<rparr> \<and>
   (\<exists>r. run (example_lib 2025) nytw (Inl (PyExc RuntimeError (ustr ''boom''))) = Inr r)"
  using run_catches_exception [of "PyExc RuntimeError (ustr ''boom'')" "example_lib 2025" nytw
      "Inl (PyExc RuntimeError (ustr ''boom''))"]
  by (simp add: nytw_def BaseScraper_init_def example_lib_def)

subsection \<open>Date ranges\<close>

lemma startswith_take: "startswith s p \<longleftrightarrow> take (length p) s = p"
  by (induction s p rule: startswith.induct) auto

lemma split_at_first_in:
  "sep \<noteq> [] \<Longrightarrow> split_at_first sep s = Some (a, b) \<Longrightarrow> py_in sep s"
  by (induction s arbitrary: a) (auto split: if_splits option.splits)

lemma split_at_first_append: "split_at_first sep s = Some (a, b) \<Longrightarrow> s = a @ sep @ b"
proof (induction s arbitrary: a)
  case Nil
  then show ?case by simp
next
  case (Cons c cs)
  show ?case
  proof (cases "startswith (c # cs) sep")
    case True
    then have "take (length sep) (c # cs) = sep"
      by (simp add: startswith_take)
    then have "c # cs = sep @ drop (length sep) (c # cs)"
      by (metis append_take_drop_id)
    with True Cons.prems show ?thesis by simp
  next
    case False
    with Cons.prems obtain a' where s: "split_at_first sep cs = Some (a', b)" and a: "a = c # a'"
      by (auto split: option.splits)
    from Cons.IH [OF s] a show ?thesis by simp
  qed
qed

lemma try_separators_None:
  "\<forall>sep \<in> set seps. \<not> py_in sep d \<Longrightarrow> try_separators P seps d = None"
  by (induction seps) simp_all

lemma try_separators_first:
  "\<forall>x \<in> set pre. \<not> py_in x d \<Longrightarrow> sep \<noteq> [] \<Longrightarrow> split_at_first sep d = Some (a, b) \<Longrightarrow>
   try_separators P (pre @ sep # post) d = Some (parse_parts P a b)"
  by (induction pre) (simp_all add: py_split1_def split_at_first_in)

lemma separators_nonempty: "sep \<in> set separators \<Longrightarrow> sep \<noteq> []"
  by (auto simp: separators_def ustr_def)

lemma isoformat_nonempty: "isoformat d \<noteq> []"
  by (simp add: isoformat_def pad4_def)

text \<open>
  C6, as the code has it. \<open>parse_date_range\<close> takes the first separator of its list that
  occurs in the text, splits the text at the first occurrence of that separator, strips
  the two parts and parses each on its own: the result is the pair of the two parses,
  and nothing compares the start with the end.
\<close>

theorem date_range_split:
  assumes i: "i < length separators"
    and before: "\<forall>j<i. \<not> py_in (separators ! j) d"
    and sp: "split_at_first (separators ! i) d = Some (a, b)"
  shows "parse_date_range P d = parse_parts P a b \<and> d = a @ separators ! i @ b"
proof
  have ne: "separators ! i \<noteq> []"
    using i by (simp add: separators_nonempty)
  have pre: "\<forall>x \<in> set (take i separators). \<not> py_in x d"
    using before i by (auto simp: in_set_conv_nth)
  have "separators = take i separators @ separators ! i # drop (Suc i) separators"
    using i by (simp add: id_take_nth_drop)
  then have "try_separators P separators d =
      try_separators P (take i separators @ separators ! i # drop (Suc i) separators) d"
    by simp
  also have "\<dots> = Some (parse_parts P a b)"
    using pre ne sp by (rule try_separators_first)
  finally have t: "try_separators P separators d = Some (parse_parts P a b)" .
  from sp have "d \<noteq> []"
    by auto
  with t show "parse_date_range P d = parse_parts P a b"
    by (simp add: parse_date_range_def)
  from sp show "d = a @ separators ! i @ b"
    by (rule split_at_first_append)
qed

theorem date_range_split_witness:
  "(1::nat) < length separators \<and>
   \<not> py_in (separators ! 0) (ustr ''Feb 21 - Mar 29, 2025'') \<and>
   split_at_first (separators ! 1) (ustr ''Feb 21 - Mar 29, 2025'') =
     Some (ustr ''Feb 21'', ustr ''Mar 29, 2025'') \<and>
   parse_date_range (example_lib 2025) (ustr ''Feb 21 - Mar 29, 2025'') =
     Inr (Some (ustr ''2025-02-21''), Some (ustr ''2025-03-29''))"
proof -
  have i: "(1::nat) < length separators"
    by (simp add: separators_def)
  have b: "\<forall>j<1. \<not> py_in (separators ! j) (ustr ''Feb 21 - Mar 29, 2025'')"
    by (simp add: separators_def ustr_def)
  have s: "split_at_first (separators ! 1) (ustr ''Feb 21 - Mar 29, 2025'') =
      Some (ustr ''Feb 21'', ustr ''Mar 29, 2025'')"
    by (simp add: separators_def ustr_def)
  have p: "parse_parts (example_lib 2025) (ustr ''Feb 21'') (ustr ''Mar 29, 2025'') =
      Inr (Some (ustr ''2025-02-21''), Some (ustr ''2025-03-29''))"
    by (simp add: parse_parts_def parse_date_def example_lib_def dateutil_examples_def
        isoformat_def pad4_def pad2_def strip_def lstrip_def rstrip_def is_space_def ustr_def)
  have "parse_date_range (example_lib 2025) (ustr ''Feb 21 - Mar 29, 2025'') =
      parse_parts (example_lib 2025) (ustr ''Feb 21'') (ustr ''Mar 29, 2025'')"
    using date_range_split [OF i b s, of "example_lib 2025"] by (rule conjunct1)
  with p have "parse_date_range (example_lib 2025) (ustr ''Feb 21 - Mar 29, 2025'') =
      Inr (Some (ustr ''2025-02-21''), Some (ustr ''2025-03-29''))"
    by simp
  moreover from b have "\<not> py_in (separators ! 0) (ustr ''Feb 21 - Mar 29, 2025'')"
    by simp
  ultimately show ?thesis
    using i s by blast
qed

text \<open>
  The claim as stated fails. Run in 2026, the example of the claim has a start after
  its end (the side without a year takes the current one); and a range written with its
  later date first is returned in that order.
\<close>

theorem date_range_order_counterexample:
  "parse_date_range (example_lib 2026) (ustr ''Feb 21 - Mar 29, 2025'') =
     Inr (Some (ustr ''2026-02-21''), Some (ustr ''2025-03-29'')) \<and>
   \<not> str_le (ustr ''2026-02-21'') (ustr ''2025-03-29'') \<and>
   parse_date_range (example_lib 2026) (ustr ''Mar 29, 2025 - Feb 21, 2025'') =
     Inr (Some (ustr ''2025-03-29''), Some (ustr ''2025-02-21'')) \<and>
   \<not> str_le (ustr ''2025-03-29'') (ustr ''2025-02-21'')"
  by (simp add: parse_date_range_def separators_def py_split1_def parse_parts_def
      parse_date_def example_lib_def dateutil_examples_def isoformat_def pad4_def pad2_def
      strip_def lstrip_def rstrip_def is_space_def ustr_def)

text \<open>
  C7. For a text in which no separator occurs, \<open>parse_date_range\<close> returns what
  \<open>parse_date\<close> returns for the whole text, as both components; an exception that
  leaves \<open>parse_date\<close> leaves \<open>parse_date_range\<close> too.
\<close>

theorem single_date_range:
  assumes "\<forall>sep \<in> set separators. \<not> py_in sep d"
  shows "parse_date_range P d =
    (case parse_date P d of Inl e \<Rightarrow> Inl e | Inr r \<Rightarrow> Inr (r, r))"
proof (cases "d = []")
  case True
  then show ?thesis
    by (simp add: parse_date_range_def parse_date_def)
next
  case False
  have n: "try_separators P separators d = None"
    using assms by (rule try_separators_None)
  have "parse_date P d \<noteq> Inr (Some [])"
    by (auto simp: parse_date_def isoformat_nonempty split: sum.splits pyexc.splits if_splits)
  with False n show ?thesis
    by (auto simp: parse_date_range_def split: sum.splits)
qed

theorem single_date_range_witness:
  "list_all (\<lambda>sep. \<not> py_in sep (ustr ''Nov 14, 2025'')) separators \<and>
   parse_date (example_lib 2025) (ustr ''Nov 14, 2025'') = Inr (Some (ustr ''2025-11-14'')) \<and>
   parse_date_range (example_lib 2025) (ustr ''Nov 14, 2025'') =
     Inr (Some (ustr ''2025-11-14''), Some (ustr ''2025-11-14''))"
proof -
  have h: "\<forall>sep \<in> set separators. \<not> py_in sep (ustr ''Nov 14, 2025'')"
    by (simp add: separators_def ustr_def)
  have p: "parse_date (example_lib 2025) (ustr ''Nov 14, 2025'') =
      Inr (Some (ustr ''2025-11-14''))"
    by (simp add: parse_date_def example_lib_def dateutil_examples_def isoformat_def
        pad4_def pad2_def ustr_def)
  from single_date_range [OF h, of "example_lib 2025"] h p
  show ?thesis by (simp add: list_all_iff)
qed

subsection \<open>Prices\<close>

lemma range_search_Nil: "re_search (range_pattern P) [] = None"
  by (simp add: re_search_def range_pattern_def seq_def Lit_def)

lemmas price_eval =
  extract_price_range_def re_search_def range_pattern_def starting_pattern_def
  single_pattern_def lits_icase_def icase_eq_def ascii_lower_def seq_def Lit_def spaces_def
  number_def Plus_def Opt_def group_def is_digit_def is_ascii_def is_space_def ustr_def

text \<open>
  C8. \<open>extract_price_range\<close> tries the range pattern first: whenever it matches, the
  result is the range form built from its two groups, whatever the other patterns would
  find. In \<open>Tickets $20-$65, rush $10\<close> the bare-price pattern matches too and the
  result is \<open>$20-$65\<close>; \<open>Starting at $5\<close> gives \<open>$5+\<close>; a text that none of the
  three patterns matches, such as \<open>no price info\<close>, gives none.
\<close>

theorem price_pattern_order:
  "(\<forall>m. re_search (range_pattern P) t = Some m \<longrightarrow>
      extract_price_range P t = Some ([36] @ group m 1 @ [45, 36] @ group m 2)) \<and>
   (re_search (range_pattern P) t = None \<and> re_search (starting_pattern P) t = None \<and>
    re_search (single_pattern P) t = None \<longrightarrow> extract_price_range P t = None) \<and>
   re_search (single_pattern P) (ustr ''Tickets $20-$65, rush $10'') \<noteq> None \<and>
   extract_price_range P (ustr ''Tickets $20-$65, rush $10'') = Some (ustr ''$20-$65'') \<and>
   extract_price_range P (ustr ''Starting at $5'') = Some (ustr ''$5+'') \<and>
   extract_price_range P (ustr ''no price info'') = None"
proof (intro conjI allI impI)
  fix m
  assume m: "re_search (range_pattern P) t = Some m"
  then have "t \<noteq> []"
    using range_search_Nil [of P] by auto
  with m show "extract_price_range P t = Some ([36] @ group m 1 @ [45, 36] @ group m 2)"
    by (simp add: extract_price_range_def)
next
  assume "re_search (range_pattern P) t = None \<and> re_search (starting_pattern P) t = None \<and>
    re_search (single_pattern P) t = None"
  then show "extract_price_range P t = None"
    by (simp add: extract_price_range_def)
next
  show "re_search (single_pattern P) (ustr ''Tickets $20-$65, rush $10'') \<noteq> None"
    by (simp add: price_eval)
next
  show "extract_price_range P (ustr ''Tickets $20-$65, rush $10'') = Some (ustr ''$20-$65'')"
    by (simp add: price_eval)
next
  show "extract_price_range P (ustr ''Starting at $5'') = Some (ustr ''$5+'')"
    by (simp add: price_eval)
next
  show "extract_price_range P (ustr ''no price info'') = None"
    by (simp add: price_eval)
qed

theorem price_pattern_order_witness:
  "re_search (range_pattern (example_lib 2025)) (ustr ''$20 - 65.50 or $10'') =
     Some \<lparr> m_start = 0, m_end = 11,
            m_groups = [(2, ustr ''65.50''), (1, ustr ''20'')] \<rparr> \<and>
   extract_price_range (example_lib 2025) (ustr ''$20 - 65.50 or $10'') =
     Some (ustr ''$20-$65.50'') \<and>
   re_search (range_pattern (example_lib 2025)) (ustr ''free'') = None \<and>
   re_search (starting_pattern (example_lib 2025)) (ustr ''free'') = None \<and>
   re_search (single_pattern (example_lib 2025)) (ustr ''free'') = None \<and>
   extract_price_range (example_lib 2025) (ustr ''free'') = None"
proof -
  have m: "re_search (range_pattern (example_lib 2025)) (ustr ''$20 - 65.50 or $10'') =
     Some \<lparr> m_start = 0, m_end = 11,
            m_groups = [(2, ustr ''65.50''), (1, ustr ''20'')] \<rparr>"
    by (simp add: price_eval)
  have n: "re_search (range_pattern (example_lib 2025)) (ustr ''free'') = None \<and>
      re_search (starting_pattern (example_lib 2025)) (ustr ''free'') = None \<and>
      re_search (single_pattern (example_lib 2025)) (ustr ''free'') = None"
    by (simp add: price_eval)
  from m n
    price_pattern_order [of "example_lib 2025" "ustr ''$20 - 65.50 or $10''"]
    price_pattern_order [of "example_lib 2025" "ustr ''free''"]
  show ?thesis by (simp add: group_def ustr_def)
qed

subsection \<open>The embedded array\<close>

lemmas regex_eval = re_search_def seq_def lits_def Lit_def Plus_def Opt_def spaces_def
  is_space_def group_def group_text_def

lemmas json_eval = json_loads_def json_value.simps json_elements.simps json_members.simps
  skip_ws_def json_ws_def json_number_def ascii_digit_def digits_value_def
  unicode_escape_def decode_uXXXX_def hex_value_def simple_escape_def

lemma anchor_events_page:
  "re_search (anchor (ustr ''var events'')) events_page =
     Some \<lparr> m_start = 0, m_end = 13, m_groups = [] \<rparr>"
  by (simp add: events_page_def anchor_def regex_eval ustr_def)

lemma find_events_page: "py_find events_page (ustr ''['') 3 23 = 13"
  by (simp add: events_page_def py_find_def adjust_index_def ustr_def upt_rec)

lemma scan_events_page:
  "scan events_page 13 13 0 False None False = Found (ustr ''[{\"a\": \"x]y\", \"b\": 1},]'')"
  by (simp add: events_page_def scan.simps scan_char_def slice_def ustr_def)

text \<open>
  C1. On the text \<^verbatim>\<open>var events = [{"a": "x]y", "b": 1},];\<close> with the anchor
  \<open>var events\<close>, the extractor returns the substring \<^verbatim>\<open>[{"a": "x]y", "b": 1},]\<close>:
  inside a string that a double quote opened, a closing bracket leaves the depth as it
  is. The repairs take the trailing comma away, and the decoder reads the result as the
  list of the one record with \<open>a\<close> = \<open>x]y\<close> and \<open>b\<close> = 1.
\<close>

theorem embedded_array_example:
  "extract_js_array events_page (anchor (ustr ''var events'')) =
     Some (ustr ''[{\"a\": \"x]y\", \"b\": 1},]'') \<and>
   scan_char 93 1 True (Some 34) = (False, 1, True, Some 34) \<and>
   clean_js (ustr ''[{\"a\": \"x]y\", \"b\": 1},]'') = ustr ''[{\"a\": \"x]y\", \"b\": 1}]'' \<and>
   json_loads (ustr ''[{\"a\": \"x]y\", \"b\": 1}]'') =
     Some (PList [PDict [(ustr ''a'', PStr (ustr ''x]y'')), (ustr ''b'', PInt 1)]])"
proof (intro conjI)
  show "extract_js_array events_page (anchor (ustr ''var events'')) =
     Some (ustr ''[{\"a\": \"x]y\", \"b\": 1},]'')"
    by (simp add: extract_js_array_def anchor_events_page find_events_page scan_events_page)
  show "scan_char 93 1 True (Some 34) = (False, 1, True, Some 34)"
    by (simp add: scan_char_def)
  show "clean_js (ustr ''[{\"a\": \"x]y\", \"b\": 1},]'') = ustr ''[{\"a\": \"x]y\", \"b\": 1}]''"
    by (simp add: clean_js_def py_replace_def trailing_comma_def regex_eval ustr_def)
  show "json_loads (ustr ''[{\"a\": \"x]y\", \"b\": 1}]'') =
     Some (PList [PDict [(ustr ''a'', PStr (ustr ''x]y'')), (ustr ''b'', PInt 1)]])"
    by (simp add: json_eval ustr_def)
qed

subsection \<open>The status of an event\<close>

lemma bind_Inr: "bind m f = Inr y \<longleftrightarrow> (\<exists>x. m = Inr x \<and> f x = Inr y)"
  by (cases m) (simp_all add: bind_def)

lemma Show_init_status:
  "Show_init now a = Inr s \<Longrightarrow>
   status s = (case a_status a of None \<Rightarrow> UPCOMING | Some x \<Rightarrow> x)"
  by (auto simp: Show_init_def split: if_splits sum.splits)

lemma event_fields_status:
  assumes "event_fields P self d = Inr (Some show)"
  shows "determine_status P d = Inr (status show)"
proof -
  from assms obtain st a where st: "determine_status P d = Inr st"
    and a: "Show_init (utcnow_iso P) a = Inr show" and "a_status a = Some st"
    by (auto simp: event_fields_def Let_def bind_Inr split: if_splits)
  then show ?thesis
    using Show_init_status [OF a] by simp
qed

lemma determine_status_eq:
  assumes "determine_status P d = Inr st"
  shows "st =
    (if \<exists>cn. map_of d (ustr ''className'') = Some (PStr cn) \<and>
           (py_in (ustr ''main-stage'') (lower P cn) \<or> py_in (ustr ''perfs'') (lower P cn))
     then RUNNING
     else case map_of d (ustr ''status'') of
            Some (PStr s) \<Rightarrow>
              if py_in (ustr ''cancel'') (lower P s) then CANCELED
              else if py_in (ustr ''closed'') (lower P s) \<or> py_in (ustr ''past'') (lower P s)
              then CLOSED else UPCOMING
          | _ \<Rightarrow> UPCOMING)"
  using assms
  by (auto simp: determine_status_def status_from_text_def bind_Inr lower_value_def
      has_key_def dict_get_def split: if_splits option.splits pyval.splits)

lemma startswith_map: "startswith s p \<Longrightarrow> startswith (map f s) (map f p)"
  by (induction s p rule: startswith.induct) auto

lemma py_in_map: "py_in sub s \<Longrightarrow> py_in (map f sub) (map f s)"
proof (induction s)
  case Nil
  then show ?case by simp
next
  case (Cons c cs)
  then show ?case
    using startswith_map [of "c # cs" sub f] by auto
qed

lemma py_in_lower:
  assumes "list_all is_ascii s" and "py_in sub s" and "map ascii_lower sub = sub"
  shows "py_in sub (lower P s)"
proof -
  from assms(2) have "py_in (map ascii_lower sub) (map ascii_lower s)"
    by (rule py_in_map)
  with assms(1,3) show ?thesis
    by (simp add: lower_def)
qed

lemma markers_lower:
  "map ascii_lower (ustr ''main-stage'') = ustr ''main-stage''"
  "map ascii_lower (ustr ''perfs'') = ustr ''perfs''"
  by (simp_all add: ustr_def ascii_lower_def)

text \<open>
  C5. For a record that \<open>_parse_spektrix_event\<close> turns into a Show: when the lowered
  text of \<open>className\<close> contains \<open>main-stage\<close> or \<open>perfs\<close>, the status is running,
  whatever the text of \<open>status\<close> says; otherwise the status is what the rules on the
  lowered text of \<open>status\<close> give: canceled when it contains \<open>cancel\<close>, else closed when
  it contains \<open>closed\<close> or \<open>past\<close>, else (and without a \<open>status\<close>) upcoming. In
  particular the status is running whenever an ASCII \<open>className\<close> contains
  \<open>main-stage\<close> or \<open>perfs\<close> as written.
\<close>

theorem status_resolution:
  assumes "parse_spektrix_event P self (PDict d) = Inr (Some show)"
  shows "status show =
    (if \<exists>cn. map_of d (ustr ''className'') = Some (PStr cn) \<and>
           (py_in (ustr ''main-stage'') (lower P cn) \<or> py_in (ustr ''perfs'') (lower P cn))
     then RUNNING
     else case map_of d (ustr ''status'') of
            Some (PStr s) \<Rightarrow>
              if py_in (ustr ''cancel'') (lower P s) then CANCELED
              else if py_in (ustr ''closed'') (lower P s) \<or> py_in (ustr ''past'') (lower P s)
              then CLOSED else UPCOMING
          | _ \<Rightarrow> UPCOMING) \<and>
    (\<forall>cn. map_of d (ustr ''className'') = Some (PStr cn) \<and> list_all is_ascii cn \<and>
          (py_in (ustr ''main-stage'') cn \<or> py_in (ustr ''perfs'') cn) \<longrightarrow>
          status show = RUNNING)"
proof -
  from assms have "event_fields P self d = Inr (Some show)"
    by (auto simp: parse_spektrix_event_def split: sum.splits if_splits)
  then have "determine_status P d = Inr (status show)"
    by (rule event_fields_status)
  then have eq: "status show =
    (if \<exists>cn. map_of d (ustr ''className'') = Some (PStr cn) \<and>
           (py_in (ustr ''main-stage'') (lower P cn) \<or> py_in (ustr ''perfs'') (lower P cn))
     then RUNNING
     else case map_of d (ustr ''status'') of
            Some (PStr s) \<Rightarrow>
              if py_in (ustr ''cancel'') (lower P s) then CANCELED
              else if py_in (ustr ''closed'') (lower P s) \<or> py_in (ustr ''past'') (lower P s)
              then CLOSED else UPCOMING
          | _ \<Rightarrow> UPCOMING)"
    by (rule determine_status_eq)
  have "status show = RUNNING"
    if h: "map_of d (ustr ''className'') = Some (PStr cn) \<and> list_all is_ascii cn \<and>
          (py_in (ustr ''main-stage'') cn \<or> py_in (ustr ''perfs'') cn)" for cn
  proof -
    from h have "py_in (ustr ''main-stage'') (lower P cn) \<or> py_in (ustr ''perfs'') (lower P cn)"
      using py_in_lower [of cn _ P] markers_lower by blast
    with h have "\<exists>cn. map_of d (ustr ''className'') = Some (PStr cn) \<and>
           (py_in (ustr ''main-stage'') (lower P cn) \<or> py_in (ustr ''perfs'') (lower P cn))"
      by blast
    then show ?thesis
      by (simp only: eq if_True)
  qed
  with eq show ?thesis
    by blast
qed

lemmas text_eval = clean_text_def html_entities_def py_replace_def strip_def lstrip_def
  rstrip_def Plus_def is_space_def

lemmas event_eval = parse_spektrix_event_def event_fields_def get_either_def dict_get_def
  has_key_def bind_def or_none_def parse_date_value_def clean_text_value_def
  normalize_url_value_def cleaned_field_def url_field_def date_field_def description_field_def
  ticket_url_field_def price_field_def lower_value_def status_from_text_def
  determine_status_def py_str_def lower_def str_truthy_def Show_init_def convert_dates_def
  normalize_url_def lstrip_chars_def rstrip_chars_def parse_date_def isoformat_def pad2_def
  pad4_def

lemma cancelled_event_parse:
  "parse_spektrix_event (example_lib 2025) nytw (PDict cancelled_event) =
     Inr (Some cancelled_show)"
  by (simp add: cancelled_event_def cancelled_show_def nytw_def BaseScraper_init_def
      example_lib_def dateutil_examples_def event_eval text_eval price_eval)

theorem status_resolution_witness:
  "parse_spektrix_event (example_lib 2025) nytw (PDict cancelled_event) =
     Inr (Some cancelled_show) \<and>
   map_of cancelled_event (ustr ''status'') = Some (PStr (ustr ''Cancelled'')) \<and>
   py_in (ustr ''cancel'') (lower (example_lib 2025) (ustr ''Cancelled'')) \<and>
   map_of cancelled_event (ustr ''className'') = Some (PStr (ustr ''event main-stage'')) \<and>
   list_all is_ascii (ustr ''event main-stage'') \<and>
   py_in (ustr ''main-stage'') (ustr ''event main-stage'') \<and>
   status cancelled_show = RUNNING"
proof -
  have s: "map_of cancelled_event (ustr ''status'') = Some (PStr (ustr ''Cancelled''))"
    by (simp add: cancelled_event_def ustr_def)
  have c: "py_in (ustr ''cancel'') (lower (example_lib 2025) (ustr ''Cancelled''))"
    by (simp add: lower_def is_ascii_def ascii_lower_def ustr_def)
  have k: "map_of cancelled_event (ustr ''className'') = Some (PStr (ustr ''event main-stage''))"
    by (simp add: cancelled_event_def ustr_def)
  have a: "list_all is_ascii (ustr ''event main-stage'')"
    by (simp add: is_ascii_def ustr_def)
  have m: "py_in (ustr ''main-stage'') (ustr ''event main-stage'')"
    by (simp add: ustr_def)
  have "status cancelled_show = RUNNING"
    using status_resolution [OF cancelled_event_parse] k a m by blast
  with cancelled_event_parse s c k a m show ?thesis
    by simp
qed

subsection \<open>The bound of the scan\<close>

lemma scan_backslashes:
  assumes "\<forall>j. i \<le> j \<and> j < length text \<longrightarrow> text ! j = 92" and "i \<le> length text"
  shows "scan text bp i depth ins sc esc = GaveUp (length text)"
  using assms
proof (induction "length text - i" arbitrary: i esc)
  case 0
  then have "i = length text" by simp
  then show ?case by (subst scan.simps) simp
next
  case (Suc n)
  then have lt: "i < length text" and c: "text ! i = 92"
    by auto
  have IH: "scan text bp (i + 1) depth ins sc e = GaveUp (length text)" for e
    using Suc.hyps(1) [of "i + 1" e] Suc.hyps(2) Suc.prems by auto
  from lt c IH show ?case
    by (subst scan.simps) simp
qed

lemma scan_plain:
  assumes "\<forall>j. i \<le> j \<and> j < length text \<longrightarrow> text ! j = 120"
    and "bp \<le> i" and "i \<le> bp + 500000" and "bp + 500000 < length text"
  shows "scan text bp i depth False None False = GaveUp (bp + 500001)"
  using assms
proof (induction "bp + 500000 - i" arbitrary: i)
  case 0
  then have i: "i = bp + 500000" by simp
  with 0 have "text ! i = 120" "i < length text"
    by auto
  with i show ?case
    by (subst scan.simps) (simp add: scan_char_def)
next
  case (Suc n)
  then have lt: "i < length text" and c: "text ! i = 120" and s: "i < bp + 500000"
    by auto
  have "scan text bp (i + 1) depth False None False = GaveUp (bp + 500001)"
    using Suc.hyps(1) [of "i + 1"] Suc.hyps(2) Suc.prems by auto
  with lt c s Suc.prems(2) show ?case
    by (subst scan.simps) (simp add: scan_char_def)
qed


lemma anchor_escaped_page:
  "re_search (anchor (ustr ''var events'')) (escaped_page n) =
     Some \<lparr> m_start = 0, m_end = 13, m_groups = [] \<rparr>"
  by (simp add: escaped_page_def anchor_def regex_eval ustr_def)

lemma find_escaped_page: "py_find (escaped_page n) (ustr ''['') 3 23 = 13"
  by (simp add: escaped_page_def py_find_def adjust_index_def ustr_def upt_rec)

lemma escaped_page_nth: "14 \<le> j \<Longrightarrow> j < length (escaped_page n) \<Longrightarrow> escaped_page n ! j = 92"
  by (simp add: escaped_page_def ustr_def nth_append)

lemma scan_escaped_page:
  "scan (escaped_page n) 13 13 0 False None False = GaveUp (14 + n)"
proof -
  have "scan (escaped_page n) 13 14 1 False None False = GaveUp (length (escaped_page n))"
    by (rule scan_backslashes) (simp_all add: escaped_page_nth, simp add: escaped_page_def ustr_def)
  moreover have "escaped_page n ! 13 = 91" "length (escaped_page n) = 14 + n"
    by (simp_all add: escaped_page_def ustr_def nth_append)
  ultimately show ?thesis
    by (subst scan.simps) (simp add: scan_char_def)
qed

lemma plain_page_nth: "14 \<le> j \<Longrightarrow> j < length (plain_page n) \<Longrightarrow> plain_page n ! j = 120"
  by (simp add: plain_page_def ustr_def nth_append)

lemma scan_plain_page:
  assumes "500000 \<le> n"
  shows "scan (plain_page n) 13 13 0 False None False = GaveUp 500014"
proof -
  have l: "length (plain_page n) = 14 + n"
    by (simp add: plain_page_def ustr_def)
  have "scan (plain_page n) 13 14 1 False None False = GaveUp (13 + 500001)"
    using assms by (intro scan_plain) (simp_all add: plain_page_nth l)
  moreover have "plain_page n ! 13 = 91"
    by (simp add: plain_page_def ustr_def nth_append)
  ultimately show ?thesis
    using l by (subst scan.simps) (simp add: scan_char_def)
qed

lemma scan_char_no_closing: "c \<noteq> 93 \<Longrightarrow> fst (scan_char c depth ins sc) = False"
  by (simp add: scan_char_def)

lemma scan_no_closing:
  assumes "\<forall>j. i \<le> j \<and> j < length text \<longrightarrow> text ! j \<noteq> 93"
  shows "\<exists>k. scan text bp i depth ins sc esc = GaveUp k"
  using assms
proof (induction "length text - i" arbitrary: i depth ins sc esc)
  case 0
  then show ?case by (subst scan.simps) simp
next
  case (Suc n)
  then have lt: "i < length text" and c: "text ! i \<noteq> 93"
    by auto
  have IH: "\<exists>k. scan text bp (i + 1) d s c e = GaveUp k" for d s c e
    using Suc.hyps(1) [of "i + 1" d s c e] Suc.hyps(2) Suc.prems by auto
  obtain found d' s' c' where sc: "scan_char (text ! i) depth ins sc = (found, d', s', c')"
    by (cases "scan_char (text ! i) depth ins sc") auto
  with scan_char_no_closing [OF c, of depth ins sc] have nf: "\<not> found"
    by simp
  from lt sc nf IH show ?case
    by (subst scan.simps) simp
qed

lemma extract_no_closing:
  assumes "\<forall>j < length text. text ! j \<noteq> 93"
  shows "extract_js_array text start_pattern = None"
proof -
  have "scan text bp bp 0 False None False \<noteq> Found s" for bp s
    using scan_no_closing [of bp "text" bp 0 False None False] assms by auto
  then show ?thesis
    by (simp add: extract_js_array_def Let_def split: option.splits scan_result.splits)
qed

lemma scan_bounded_without_escapes:
  assumes "\<forall>j. i \<le> j \<and> j < length text \<longrightarrow> text ! j \<noteq> 92"
    and "bp \<le> i" and "i \<le> bp + 500000"
  shows "\<exists>k \<le> bp + 500001.
    scan text bp i depth ins sc False = GaveUp k \<or>
    scan text bp i depth ins sc False = Found (slice text bp k)"
  using assms
proof (induction "length text - i" arbitrary: i depth ins sc)
  case 0
  then have "scan text bp i depth ins sc False = GaveUp i"
    by (subst scan.simps) simp
  with "0.prems" show ?case
    by (intro exI [of _ i]) simp
next
  case (Suc n)
  then have lt: "i < length text" and c: "text ! i \<noteq> 92"
    by auto
  obtain found d' s' c' where sc: "scan_char (text ! i) depth ins sc = (found, d', s', c')"
    by (cases "scan_char (text ! i) depth ins sc") auto
  show ?case
  proof (cases "found \<or> i + 1 - bp > 500000")
    case True
    with lt c sc have
      "scan text bp i depth ins sc False = Found (slice text bp (i + 1)) \<or>
       scan text bp i depth ins sc False = GaveUp (i + 1)"
      by (subst (1 2) scan.simps) auto
    with Suc.prems show ?thesis
      by (intro exI [of _ "i + 1"]) auto
  next
    case False
    with lt c sc have "scan text bp i depth ins sc False = scan text bp (i + 1) d' s' c' False"
      by (subst scan.simps) simp
    moreover have "\<exists>k \<le> bp + 500001.
        scan text bp (i + 1) d' s' c' False = GaveUp k \<or>
        scan text bp (i + 1) d' s' c' False = Found (slice text bp k)"
      using Suc.hyps(1) [of "i + 1" d' s' c'] Suc.hyps(2) Suc.prems False by auto
    ultimately show ?thesis by simp
  qed
qed

text \<open>
  C2. The safety check stands at the end of the loop body, and the two \<open>continue\<close>
  of the escape handling skip it. On a page whose unclosed array holds 600,000 plain
  characters the scan gives up at index 500,014, which is 500,001 characters after the
  opening bracket at 13. On a page whose unclosed array holds 600,000 backslashes no
  iteration reaches the check: the scan runs to the end of the text, index 600,014, that
  is 600,000 characters past the bracket, before the extractor returns none.
\<close>

theorem scan_bound_bypassed:
  "extract_js_array (escaped_page 600000) (anchor (ustr ''var events'')) = None \<and>
   scan (escaped_page 600000) 13 13 0 False None False = GaveUp 600014 \<and>
   length (escaped_page 600000) = 600014 \<and>
   scan (plain_page 600000) 13 13 0 False None False = GaveUp 500014"
proof (intro conjI)
  show "scan (escaped_page 600000) 13 13 0 False None False = GaveUp 600014"
    by (simp add: scan_escaped_page)
  then show "extract_js_array (escaped_page 600000) (anchor (ustr ''var events'')) = None"
    by (simp add: extract_js_array_def anchor_escaped_page find_escaped_page)
  show "length (escaped_page 600000) = 600014"
    by (simp add: escaped_page_def ustr_def)
  show "scan (plain_page 600000) 13 13 0 False None False = GaveUp 500014"
    by (simp add: scan_plain_page)
qed

subsection \<open>Cleaning text\<close>

lemma matches_Star_Cls: "\<exists>tl. matches (Star (Cls p)) (s, g) = (dropWhile p s, g) # tl"
proof (induction s)
  case Nil
  show ?case by simp
next
  case (Cons c cs)
  then obtain tl where "matches (Star (Cls p)) (cs, g) = (dropWhile p cs, g) # tl"
    by blast
  then show ?case by simp
qed

lemma matches_Plus_Cls:
  "matches (Plus (Cls p)) ([], g) = []"
  "matches (Plus (Cls p)) (c # cs, g) = (if p c then matches (Star (Cls p)) (cs, g) else [])"
  by (simp_all add: Plus_def)

lemma re_sub_spaces: "re_sub (Plus (Cls is_space)) (\<lambda>g. [32]) s = collapse_ws s"
proof (induction s rule: collapse_ws.induct)
  case 1
  show ?case by (simp add: matches_Plus_Cls)
next
  case (2 c cs)
  show ?case
  proof (cases "is_space c")
    case True
    obtain tl where m: "matches (Star (Cls is_space)) (cs, []) = (dropWhile is_space cs, []) # tl"
      using matches_Star_Cls by blast
    have "length (dropWhile is_space cs) < length (c # cs)"
      by (simp add: length_dropWhile_le less_Suc_eq_le)
    with True m 2 show ?thesis
      by (simp add: matches_Plus_Cls)
  next
    case False
    with 2 show ?thesis
      by (simp add: matches_Plus_Cls)
  qed
qed

lemma collapse_ws_hd: "s \<noteq> [] \<Longrightarrow> \<not> is_space (hd s) \<Longrightarrow> collapse_ws s \<noteq> [] \<and> hd (collapse_ws s) = hd s"
  by (cases s) simp_all

lemma dropWhile_hd: "dropWhile P xs \<noteq> [] \<Longrightarrow> \<not> P (hd (dropWhile P xs))"
  by (rule hd_dropWhile)

lemma single_spaced_collapse: "single_spaced (collapse_ws s)"
proof (induction s rule: collapse_ws.induct)
  case 1
  show ?case by simp
next
  case (2 c cs)
  show ?case
  proof (cases "is_space c")
    case True
    have "collapse_ws (dropWhile is_space cs) = [] \<or>
        \<not> is_space (hd (collapse_ws (dropWhile is_space cs)))"
    proof (cases "dropWhile is_space cs = []")
      case True
      then have "collapse_ws (dropWhile is_space cs) = []"
        by (simp only: collapse_ws.simps)
      then show ?thesis ..
    next
      case False
      then have "\<not> is_space (hd (dropWhile is_space cs))"
        by (rule hd_dropWhile)
      with False show ?thesis
        using collapse_ws_hd by simp
    qed
    with True 2 show ?thesis by simp
  next
    case False
    with 2 show ?thesis by simp
  qed
qed

lemma collapse_single_spaced: "single_spaced s \<Longrightarrow> collapse_ws s = s"
proof (induction s rule: collapse_ws.induct)
  case 1
  show ?case by simp
next
  case (2 c cs)
  show ?case
  proof (cases "is_space c")
    case True
    with "2.prems" have c: "c = 32" and h: "cs = [] \<or> \<not> is_space (hd cs)" and s: "single_spaced cs"
      by auto
    from h have d: "dropWhile is_space cs = cs"
      by (cases cs) auto
    with True 2 s c show ?thesis by simp
  next
    case False
    with 2 show ?thesis by simp
  qed
qed

lemma single_spaced_append: "single_spaced (a @ b) \<Longrightarrow> single_spaced a"
proof (induction a)
  case Nil
  show ?case by simp
next
  case (Cons c a)
  then show ?case by (cases a) auto
qed

lemma single_spaced_dropWhile: "single_spaced s \<Longrightarrow> single_spaced (dropWhile P s)"
  by (induction s) auto

lemma rstrip_prefix: "\<exists>b. s = rstrip s @ b"
proof -
  have "rev (takeWhile is_space (rev s) @ dropWhile is_space (rev s)) = s"
    by (simp only: takeWhile_dropWhile_id rev_rev_ident)
  then have "s = rstrip s @ rev (takeWhile is_space (rev s))"
    by (simp only: rev_append rstrip_def)
  then show ?thesis ..
qed

lemma single_spaced_strip: "single_spaced s \<Longrightarrow> single_spaced (strip s)"
proof -
  assume s: "single_spaced s"
  obtain b where "s = rstrip s @ b"
    using rstrip_prefix by blast
  with s have "single_spaced (rstrip s)"
    by (metis single_spaced_append)
  then show ?thesis
    by (simp add: strip_def lstrip_def single_spaced_dropWhile)
qed

lemma last_dropWhile_eq: "dropWhile P xs \<noteq> [] \<Longrightarrow> last (dropWhile P xs) = last xs"
  by (induction xs) (auto split: if_splits)

lemma rstrip_id: "s = [] \<or> \<not> is_space (last s) \<Longrightarrow> rstrip s = s"
proof (cases "s = []")
  case True
  then show ?thesis by (simp add: rstrip_def)
next
  case False
  assume "s = [] \<or> \<not> is_space (last s)"
  with False have "\<not> is_space (hd (rev s))"
    by (simp add: hd_rev)
  with False have "dropWhile is_space (rev s) = rev s"
    by (cases "rev s") auto
  then show ?thesis by (simp add: rstrip_def)
qed

lemma strip_strip: "strip (strip s) = strip s"
proof -
  let ?r = "rstrip s"
  have r: "?r = [] \<or> \<not> is_space (last ?r)"
    using rstrip_last by blast
  have "lstrip ?r = [] \<or> \<not> is_space (last (lstrip ?r))"
  proof (cases "lstrip ?r = []")
    case True
    then show ?thesis ..
  next
    case False
    then have "last (lstrip ?r) = last ?r" and "?r \<noteq> []"
      by (auto simp: lstrip_def last_dropWhile_eq)
    with r show ?thesis by simp
  qed
  then have "rstrip (lstrip ?r) = lstrip ?r"
    by (rule rstrip_id)
  then show ?thesis
    by (simp add: strip_def lstrip_def)
qed

lemma replace_from_absent: "\<not> py_in old s \<Longrightarrow> replace_from old new s = s"
  by (induction s) auto

lemma py_replace_absent: "old \<noteq> [] \<Longrightarrow> \<not> py_in old s \<Longrightarrow> py_replace old new s = s"
  by (simp add: py_replace_def replace_from_absent)

lemma entities_absent:
  "entity_free s \<Longrightarrow> fold (\<lambda>(old, new) t. py_replace old new t) html_entities s = s"
  by (simp add: entity_free_def html_entities_def py_replace_absent ustr_def)

lemma startswith_append: "startswith a e \<Longrightarrow> startswith (a @ b) e"
  by (induction a e rule: startswith.induct) auto

lemma py_in_append: "py_in e a \<Longrightarrow> py_in e (a @ b)"
proof (induction a)
  case Nil
  then show ?case by (cases b) auto
next
  case (Cons c a)
  then show ?case
    using startswith_append [of "c # a" e b] by auto
qed

lemma py_in_dropWhile: "py_in e (dropWhile P s) \<Longrightarrow> e \<noteq> [] \<Longrightarrow> py_in e s"
  by (induction s) (auto split: if_splits)

lemma py_in_strip: "py_in e (strip s) \<Longrightarrow> e \<noteq> [] \<Longrightarrow> py_in e s"
proof -
  assume a: "py_in e (strip s)" and e: "e \<noteq> []"
  then have "py_in e (rstrip s)"
    by (simp add: strip_def lstrip_def py_in_dropWhile)
  moreover obtain b where "s = rstrip s @ b"
    using rstrip_prefix by blast
  ultimately show "py_in e s"
    by (metis py_in_append)
qed

lemma startswith_collapse:
  "startswith (collapse_ws s) e \<Longrightarrow> \<forall>c \<in> set e. \<not> is_space c \<Longrightarrow> startswith s e"
proof (induction s arbitrary: e rule: collapse_ws.induct)
  case 1
  then show ?case by simp
next
  case (2 c cs)
  show ?case
  proof (cases e)
    case Nil
    then show ?thesis by simp
  next
    case (Cons x e')
    show ?thesis
    proof (cases "is_space c")
      case True
      with "2.prems" Cons have "x = 32" by simp
      with "2.prems"(2) Cons show ?thesis
        by (simp add: is_space_def)
    next
      case False
      with "2.prems" Cons have "x = c" "startswith (collapse_ws cs) e'" "\<forall>c \<in> set e'. \<not> is_space c"
        by simp_all
      with "2.IH"(2) [OF False] Cons show ?thesis by simp
    qed
  qed
qed

lemma py_in_collapse:
  "py_in e (collapse_ws s) \<Longrightarrow> e \<noteq> [] \<Longrightarrow> \<forall>c \<in> set e. \<not> is_space c \<Longrightarrow> py_in e s"
proof (induction s rule: collapse_ws.induct)
  case 1
  then show ?case by simp
next
  case (2 c cs)
  show ?case
  proof (cases "is_space c")
    case True
    have "\<not> startswith (32 # collapse_ws (dropWhile is_space cs)) e"
    proof
      assume sw: "startswith (32 # collapse_ws (dropWhile is_space cs)) e"
      from "2.prems"(2) obtain x e' where e: "e = x # e'"
        by (cases e) auto
      with sw have "x = 32" by simp
      with "2.prems"(3) e show False
        by (simp add: is_space_def)
    qed
    with True "2.prems" have "py_in e (collapse_ws (dropWhile is_space cs))"
      by simp
    with "2.IH"(1) [OF True] "2.prems" have "py_in e (dropWhile is_space cs)"
      by simp
    with "2.prems"(2) have "py_in e cs"
      using py_in_dropWhile by blast
    then show ?thesis by simp
  next
    case False
    with "2.prems" have "startswith (collapse_ws (c # cs)) e \<or> py_in e (collapse_ws cs)"
      by simp
    then show ?thesis
    proof
      assume "startswith (collapse_ws (c # cs)) e"
      with "2.prems"(3) have "startswith (c # cs) e"
        using startswith_collapse by blast
      then show ?thesis by simp
    next
      assume "py_in e (collapse_ws cs)"
      with "2.IH"(2) [OF False] "2.prems" have "py_in e cs" by simp
      then show ?thesis by simp
    qed
  qed
qed

lemma entity_free_normal: "entity_free t \<Longrightarrow> entity_free (strip (collapse_ws t))"
proof -
  have "\<not> py_in e t \<Longrightarrow> e \<noteq> [] \<Longrightarrow> \<forall>c \<in> set e. \<not> is_space c \<Longrightarrow>
      \<not> py_in e (strip (collapse_ws t))" for e
    using py_in_strip py_in_collapse by blast
  then show "entity_free t \<Longrightarrow> entity_free (strip (collapse_ws t))"
    by (simp add: entity_free_def html_entities_def ustr_def is_space_def)
qed

lemma clean_text_normal:
  "clean_text t = fold (\<lambda>(old, new) t. py_replace old new t) html_entities (strip (collapse_ws t))"
proof (cases "t = []")
  case True
  then show ?thesis
    by (simp add: clean_text_def strip_def lstrip_def rstrip_def html_entities_def
        py_replace_def ustr_def)
next
  case False
  then show ?thesis
    by (simp add: clean_text_def re_sub_spaces ustr_def)
qed

text \<open>
  C10, as the code has it. For a text in which none of the six entities occurs,
  \<open>clean_text\<close> applied to its own output returns that output.
\<close>

theorem clean_text_idempotent_entity_free:
  assumes "entity_free t"
  shows "clean_text (clean_text t) = clean_text t"
proof -
  let ?n = "strip (collapse_ws t)"
  have n: "clean_text t = ?n"
    using assms by (simp add: clean_text_normal entities_absent entity_free_normal)
  have "single_spaced ?n"
    by (simp add: single_spaced_strip single_spaced_collapse)
  then have "collapse_ws ?n = ?n"
    by (rule collapse_single_spaced)
  then have "strip (collapse_ws ?n) = ?n"
    by (simp add: strip_strip)
  moreover have "entity_free ?n"
    using assms by (rule entity_free_normal)
  ultimately have "clean_text ?n = ?n"
    by (simp add: clean_text_normal entities_absent)
  with n show ?thesis by simp
qed

theorem clean_text_idempotent_entity_free_witness:
  "entity_free (ustr ''  Hello'' @ [9, 10] @ ustr ''World  '') \<and>
   clean_text (ustr ''  Hello'' @ [9, 10] @ ustr ''World  '') = ustr ''Hello World'' \<and>
   clean_text (clean_text (ustr ''  Hello'' @ [9, 10] @ ustr ''World  '')) =
     clean_text (ustr ''  Hello'' @ [9, 10] @ ustr ''World  '')"
proof -
  have e: "entity_free (ustr ''  Hello'' @ [9, 10] @ ustr ''World  '')"
    by (simp add: entity_free_def html_entities_def ustr_def)
  have c: "clean_text (ustr ''  Hello'' @ [9, 10] @ ustr ''World  '') = ustr ''Hello World''"
    by (simp add: text_eval ustr_def)
  from e c clean_text_idempotent_entity_free [OF e] show ?thesis
    by simp
qed

text \<open>
  The claim as stated fails where the text holds an entity. The decoded text can hold
  an entity again (\<open>&amp;amp;\<close> becomes \<open>&amp;\<close>, then \<open>&\<close>), and the space
  that \<open>&nbsp;\<close> becomes is put in after the stripping, so that a second run strips
  it.
\<close>

theorem clean_text_not_idempotent:
  "clean_text (ustr ''&amp;amp;'') = ustr ''&amp;'' \<and>
   clean_text (clean_text (ustr ''&amp;amp;'')) = ustr ''&'' \<and>
   clean_text (ustr ''a&nbsp;'') = ustr ''a '' \<and>
   clean_text (clean_text (ustr ''a&nbsp;'')) = ustr ''a''"
  by (simp add: text_eval ustr_def)

end
